theory Spec2Isabelle
  imports Main
begin

section \<open>Time-management assistant: timer synchronisation and record ledger\<close>

text \<open>
  The development embeds four JavaScript modules of the browser extension:
  \<^item> \<^verbatim>\<open>js/background.js\<close>: the service worker that owns the live timer
    (the spec's TimerAuthority) and snapshots it to \<^verbatim>\<open>chrome.storage.local\<close>;
  \<^item> the storage module (\<^verbatim>\<open>StorageManager\<close>): records, settings and the page's own
    timer snapshot in \<^verbatim>\<open>localStorage\<close> (PersistentStore and RecordLedger);
  \<^item> the popup module (\<^verbatim>\<open>TimerManager\<close>): the TimerObserver;
  \<^item> \<^verbatim>\<open>js/options.js\<close> (\<^verbatim>\<open>SettingsManager\<close>): the category list.

  Conventions of the embedding.
  \<^item> Instants and durations are JavaScript numbers holding integers (milliseconds since the
    epoch, as \<^verbatim>\<open>Date.now()\<close> returns them); they are modelled as \<^typ>\<open>int\<close>, exact within
    the safe-integer range of a double. Every call of \<^verbatim>\<open>Date.now()\<close> is a parameter
    \<open>now\<close> of the operation that makes it.
  \<^item> Mutable globals and object fields are threaded through explicitly: each operation
    takes the state and returns the new one.
  \<^item> Asynchronous callbacks (storage reads, message replies, interval ticks) are run to
    completion in the order they are issued; a message sent to the service worker is
    handled before the sender's next statement has an effect that depends on it.
  \<^item> The code runs inside the extension, where \<^verbatim>\<open>chrome.runtime\<close> and
    \<^verbatim>\<open>chrome.storage\<close> are defined.
  \<^item> Strings are UTF-8 byte lists; equality of two well-formed strings is the same on
    bytes as on the UTF-16 code units JavaScript compares.
\<close>

subsection \<open>The timer snapshot\<close>

text \<open>
  The object \<^verbatim>\<open>{ isRunning, startTime, elapsedTime }\<close> that the service worker keeps
  in \<^verbatim>\<open>timerState\<close>, stores under \<^verbatim>\<open>timeTracker_currentTimer\<close> and returns to
  \<^verbatim>\<open>GET_TIMER_STATUS\<close>.
\<close>

record snapshot =
  isRunning :: bool
  startTime :: int
  elapsedTime :: int

text \<open>The payload of \<^verbatim>\<open>START_TIMER\<close>: \<^verbatim>\<open>{ startTime, elapsedTime }\<close>.\<close>

record timer_data =
  data_startTime :: int
  data_elapsedTime :: int

text \<open>
  \<^verbatim>\<open>x || d\<close> on numbers: \<open>0\<close> is falsy, so the default replaces it.
\<close>

definition num_or :: "int \<Rightarrow> int \<Rightarrow> int" where
  "num_or x d = (if x = 0 then d else x)"

subsection \<open>The service worker (background.js)\<close>

text \<open>
  The globals \<^verbatim>\<open>timerInterval\<close> (here: whether it holds an interval handle) and
  \<^verbatim>\<open>timerState\<close>, together with the one key of \<^verbatim>\<open>chrome.storage.local\<close> the timer
  uses. \<open>chrome_writes\<close> counts the calls of \<^verbatim>\<open>chrome.storage.local.set\<close> and
  \<^verbatim>\<open>remove\<close>.
\<close>

record authority =
  timerInterval :: bool
  timerState :: snapshot
  chrome_currentTimer :: "snapshot option"
  chrome_writes :: nat

definition initial_timerState :: snapshot where
  "initial_timerState = \<lparr>isRunning = False, startTime = 0, elapsedTime = 0\<rparr>"

text \<open>
  A freshly started service worker: the globals have their initial values, the storage
  holds whatever an earlier incarnation left there.
\<close>

definition fresh_authority :: "snapshot option \<Rightarrow> authority" where
  "fresh_authority stored =
     \<lparr>timerInterval = False, timerState = initial_timerState,
      chrome_currentTimer = stored, chrome_writes = 0\<rparr>"

text \<open>\<^verbatim>\<open>chrome.storage.local.set({ timeTracker_currentTimer: timerState })\<close>\<close>

definition chrome_set :: "authority \<Rightarrow> authority" where
  "chrome_set a =
     a\<lparr>chrome_currentTimer := Some (timerState a), chrome_writes := Suc (chrome_writes a)\<rparr>"

text \<open>\<^verbatim>\<open>chrome.storage.local.remove('timeTracker_currentTimer')\<close>\<close>

definition chrome_remove :: "authority \<Rightarrow> authority" where
  "chrome_remove a =
     a\<lparr>chrome_currentTimer := None, chrome_writes := Suc (chrome_writes a)\<rparr>"

text \<open>
  \<^verbatim>\<open>startTimer(data)\<close>: drops a running interval, builds the new state with the
  \<^verbatim>\<open>||\<close> defaults, starts the interval and stores the state at once.
\<close>

definition startTimer :: "int \<Rightarrow> timer_data \<Rightarrow> authority \<Rightarrow> authority" where
  "startTimer now data a =
     chrome_set
       (a\<lparr>timerState :=
            \<lparr>isRunning = True,
             startTime = num_or (data_startTime data) now,
             elapsedTime = num_or (data_elapsedTime data) 0\<rparr>,
          timerInterval := True\<rparr>)"

text \<open>
  The interval callback; it fires only while the interval handle is live.
\<close>

definition tick :: "int \<Rightarrow> authority \<Rightarrow> authority" where
  "tick now a =
     (if timerInterval a
      then chrome_set
             (a\<lparr>timerState := (timerState a)\<lparr>elapsedTime := now - startTime (timerState a)\<rparr>\<rparr>)
      else a)"

definition pauseTimer :: "int \<Rightarrow> authority \<Rightarrow> authority" where
  "pauseTimer now a =
     (let a1 = (if timerInterval a then a\<lparr>timerInterval := False\<rparr> else a)
      in if isRunning (timerState a1)
         then chrome_set
                (a1\<lparr>timerState :=
                      (timerState a1)\<lparr>isRunning := False,
                                      elapsedTime := now - startTime (timerState a1)\<rparr>\<rparr>)
         else a1)"

definition clearTimer :: "int \<Rightarrow> authority \<Rightarrow> authority" where
  "clearTimer now a = chrome_remove ((pauseTimer now a)\<lparr>timerState := initial_timerState\<rparr>)"

text \<open>
  \<^verbatim>\<open>getTimerStatus(sendResponse)\<close>: the pair of the reply and the new state. A stored
  snapshot replaces the state in memory; when it says running and no interval is live,
  \<^verbatim>\<open>startTimer(timerState)\<close> is called on it before the reply is sent.
\<close>

definition getTimerStatus :: "int \<Rightarrow> authority \<Rightarrow> snapshot \<times> authority" where
  "getTimerStatus now a =
     (case chrome_currentTimer a of
        Some stored \<Rightarrow>
          (let a1 = a\<lparr>timerState := stored\<rparr>;
               a2 = (if isRunning (timerState a1) \<and> \<not> timerInterval a1
                     then startTimer now
                            \<lparr>data_startTime = startTime (timerState a1),
                             data_elapsedTime = elapsedTime (timerState a1)\<rparr> a1
                     else a1)
           in (timerState a2, a2))
      | None \<Rightarrow> (timerState a, a))"

text \<open>
  The message protocol of \<^verbatim>\<open>chrome.runtime.onMessage\<close>; \<open>Other_type\<close> is a message
  of any other type (the \<^verbatim>\<open>SETTINGS_UPDATED\<close> broadcast is one), which takes the
  \<^verbatim>\<open>default\<close> branch.
\<close>

datatype message =
  START_TIMER timer_data | PAUSE_TIMER | CLEAR_TIMER | GET_TIMER_STATUS | Other_type string

datatype response = Status string | Timer snapshot

definition onMessage :: "int \<Rightarrow> message \<Rightarrow> authority \<Rightarrow> response \<times> authority" where
  "onMessage now m a =
     (case m of
        START_TIMER data \<Rightarrow> (Status ''started'', startTimer now data a)
      | PAUSE_TIMER \<Rightarrow> (Status ''paused'', pauseTimer now a)
      | CLEAR_TIMER \<Rightarrow> (Status ''cleared'', clearTimer now a)
      | GET_TIMER_STATUS \<Rightarrow> (let (s, a') = getTimerStatus now a in (Timer s, a'))
      | Other_type _ \<Rightarrow> (Status ''unknown command'', a))"

subsection \<open>JavaScript values in a stored record\<close>

text \<open>
  A record's \<^verbatim>\<open>duration\<close> is read back from JSON, so it can be any JSON value, or
  absent (\<^verbatim>\<open>undefined\<close>). A number is written in one of two ways:
  \<^item> \<open>JNum n\<close> is the integer \<open>n\<close>, of magnitude below \<open>10\<^sup>2\<^sup>1\<close>, which
    \<^verbatim>\<open>ToString\<close> prints in plain decimal;
  \<^item> \<open>JNum_text t\<close> is any other finite number (a fraction, or a number from
    \<open>10\<^sup>2\<^sup>1\<close> on), given by the text \<open>t\<close> that \<^verbatim>\<open>ToString\<close> prints for it, such as
    \<^verbatim>\<open>12.7\<close> or \<^verbatim>\<open>1e+21\<close>: the sums use a duration only through that text and
    through its truth value, and such a number is not zero.
  An object is the list of its keys and values.
\<close>

datatype json =
  JUndefined | JNull | JBool bool | JNum int | JNum_text string | JStr string
| JArray "json list" | JObject "(string \<times> json) list"

text \<open>
  A JavaScript number as far as the model follows it: an integer of magnitude at most
  \<open>2\<^sup>5\<^sup>3\<close>, which a double holds exactly; \<^verbatim>\<open>NaN\<close>; or \<open>Unsafe\<close>, a value that is
  not followed, because it lies outside the safe integers or comes from arithmetic on
  such a value (it may be any number, infinite, or \<^verbatim>\<open>NaN\<close>). Nothing is proved of a
  result \<open>Unsafe\<close>. \<open>Exact 0\<close> stands for both zeros, which are equal and add alike
  to every other number.
\<close>

datatype js_number = Exact int | NaN | Unsafe

text \<open>The double nearest to an integer, followed within the safe integers only.\<close>

definition number_of :: "int \<Rightarrow> js_number" where
  "number_of n = (if \<bar>n\<bar> \<le> 2 ^ 53 then Exact n else Unsafe)"

text \<open>
  \<^verbatim>\<open>a + b\<close> and \<^verbatim>\<open>a - b\<close> on numbers: \<^verbatim>\<open>NaN\<close> absorbs every operand; the sum of
  two safe integers is exact when it is a safe integer again.
\<close>

fun js_add :: "js_number \<Rightarrow> js_number \<Rightarrow> js_number" where
  "js_add NaN _ = NaN"
| "js_add _ NaN = NaN"
| "js_add (Exact x) (Exact y) =
     (if \<bar>x\<bar> \<le> 2 ^ 53 \<and> \<bar>y\<bar> \<le> 2 ^ 53 then number_of (x + y) else Unsafe)"
| "js_add _ _ = Unsafe"

fun js_sub :: "js_number \<Rightarrow> js_number \<Rightarrow> js_number" where
  "js_sub NaN _ = NaN"
| "js_sub _ NaN = NaN"
| "js_sub (Exact x) (Exact y) =
     (if \<bar>x\<bar> \<le> 2 ^ 53 \<and> \<bar>y\<bar> \<le> 2 ^ 53 then number_of (x - y) else Unsafe)"
| "js_sub _ _ = Unsafe"

text \<open>The exception the sums can raise.\<close>

datatype exception = TypeError

text \<open>\<^verbatim>\<open>ToBoolean\<close>: arrays and objects are truthy.\<close>

fun truthy :: "json \<Rightarrow> bool" where
  "truthy JUndefined = False"
| "truthy JNull = False"
| "truthy (JBool b) = b"
| "truthy (JNum n) = (n \<noteq> 0)"
| "truthy (JNum_text t) = True"
| "truthy (JStr s) = (s \<noteq> [])"
| "truthy (JArray xs) = True"
| "truthy (JObject kvs) = True"

text \<open>\<^verbatim>\<open>v || d\<close>\<close>

definition js_or :: "json \<Rightarrow> json \<Rightarrow> json" where
  "js_or v d = (if truthy v then v else d)"

text \<open>
  The white space of ECMAScript (\<^verbatim>\<open>WhiteSpace\<close> and \<^verbatim>\<open>LineTerminator\<close>), which
  \<^verbatim>\<open>parseInt\<close> skips and \<^verbatim>\<open>String.prototype.trim\<close> removes, as UTF-8: the one-byte
  characters TAB, LF, VT, FF, CR and SPACE; the two-byte U+00A0; and the three-byte
  U+1680, U+2000 to U+200A, U+2028, U+2029, U+202F, U+205F, U+3000 and U+FEFF.
\<close>

definition white1 :: "char \<Rightarrow> bool" where
  "white1 a \<longleftrightarrow> a \<in> set [CHR 0x09, CHR 0x0A, CHR 0x0B, CHR 0x0C, CHR 0x0D, CHR 0x20]"

definition white2 :: "char \<Rightarrow> char \<Rightarrow> bool" where
  "white2 a b \<longleftrightarrow> a = CHR 0xC2 \<and> b = CHR 0xA0"

definition white3 :: "char \<Rightarrow> char \<Rightarrow> char \<Rightarrow> bool" where
  "white3 a b c \<longleftrightarrow>
     (a = CHR 0xE1 \<and> b = CHR 0x9A \<and> c = CHR 0x80)
   \<or> (a = CHR 0xE2 \<and> b = CHR 0x80 \<and>
        ((0x80 :: nat) \<le> of_char c \<and> (of_char c :: nat) \<le> 0x8A
         \<or> c = CHR 0xA8 \<or> c = CHR 0xA9 \<or> c = CHR 0xAF))
   \<or> (a = CHR 0xE2 \<and> b = CHR 0x81 \<and> c = CHR 0x9F)
   \<or> (a = CHR 0xE3 \<and> b = CHR 0x80 \<and> c = CHR 0x80)
   \<or> (a = CHR 0xEF \<and> b = CHR 0xBB \<and> c = CHR 0xBF)"

text \<open>The string without its leading white space.\<close>

fun trim_start :: "string \<Rightarrow> string" where
  "trim_start [] = []"
| "trim_start [a] = (if white1 a then [] else [a])"
| "trim_start [a, b] =
     (if white1 a then trim_start [b] else if white2 a b then [] else [a, b])"
| "trim_start (a # b # c # s) =
     (if white1 a then trim_start (b # c # s)
      else if white2 a b then trim_start (c # s)
      else if white3 a b c then trim_start s
      else a # b # c # s)"

text \<open>
  The same from the other end, on the reversed string: the bytes of a character come
  last byte first.
\<close>

fun trim_reversed :: "string \<Rightarrow> string" where
  "trim_reversed [] = []"
| "trim_reversed [a] = (if white1 a then [] else [a])"
| "trim_reversed [a, b] =
     (if white1 a then trim_reversed [b] else if white2 b a then [] else [a, b])"
| "trim_reversed (a # b # c # s) =
     (if white1 a then trim_reversed (b # c # s)
      else if white2 b a then trim_reversed (c # s)
      else if white3 c b a then trim_reversed s
      else a # b # c # s)"

text \<open>\<^verbatim>\<open>String.prototype.trim\<close>\<close>

definition trim :: "string \<Rightarrow> string" where
  "trim s = rev (trim_reversed (rev (trim_start s)))"

text \<open>
  \<^verbatim>\<open>parseInt(string)\<close> with no radix, after ECMAScript: leading white space is skipped,
  then an optional sign, then a \<^verbatim>\<open>0x\<close> prefix selecting radix 16, then the longest run
  of digits of the radix; no digit gives \<^verbatim>\<open>NaN\<close>. The result is the double nearest
  to the value of the digits.
\<close>

definition digit_value :: "char \<Rightarrow> nat option" where
  "digit_value c =
     (let n = (of_char c :: nat)
      in if 48 \<le> n \<and> n \<le> 57 then Some (n - 48)
         else if 97 \<le> n \<and> n \<le> 122 then Some (n - 87)
         else if 65 \<le> n \<and> n \<le> 90 then Some (n - 55)
         else None)"

definition is_digit :: "nat \<Rightarrow> char \<Rightarrow> bool" where
  "is_digit radix c = (case digit_value c of Some d \<Rightarrow> d < radix | None \<Rightarrow> False)"

definition digits_value :: "nat \<Rightarrow> string \<Rightarrow> int" where
  "digits_value radix ds =
     foldl (\<lambda>acc c. acc * int radix + (case digit_value c of Some d \<Rightarrow> int d | None \<Rightarrow> 0)) 0 ds"

definition parseInt_string :: "string \<Rightarrow> js_number" where
  "parseInt_string s =
     (let s1 = trim_start s;
          negative = (case s1 of c # _ \<Rightarrow> c = CHR ''-'' | [] \<Rightarrow> False);
          s2 = (case s1 of c # t \<Rightarrow> if c = CHR ''+'' \<or> c = CHR ''-'' then t else s1 | [] \<Rightarrow> s1);
          hex = (case s2 of a # b # _ \<Rightarrow> a = CHR ''0'' \<and> (b = CHR ''x'' \<or> b = CHR ''X'') | _ \<Rightarrow> False);
          radix = (if hex then 16 else 10);
          s3 = (if hex then drop 2 s2 else s2);
          ds = takeWhile (is_digit radix) s3
      in if ds = [] then NaN
         else number_of ((if negative then - 1 else 1) * digits_value radix ds))"

text \<open>The decimal digits that \<^verbatim>\<open>ToString\<close> prints for an integer below \<open>10\<^sup>2\<^sup>1\<close>.\<close>

function decimal :: "nat \<Rightarrow> string" where
  "decimal n =
     (if n < 10 then [char_of (48 + n)] else decimal (n div 10) @ [char_of (48 + n mod 10)])"
  by pat_completeness auto
termination
  by (relation "measure id") auto

declare decimal.simps [simp del]

definition number_text :: "int \<Rightarrow> string" where
  "number_text n = (if n < 0 then ''-'' @ decimal (nat (- n)) else decimal (nat n))"

text \<open>
  \<^verbatim>\<open>ToString\<close> on a value read from JSON. An array is joined: its elements' strings
  with commas between them, \<^verbatim>\<open>null\<close> giving the empty string (the recursion of the
  engine is bounded by its call stack, that of the model is not). An object has
  \<^verbatim>\<open>Object.prototype.toString\<close> unless it has a key \<^verbatim>\<open>toString\<close> of its own, whose
  value, coming from JSON, is not callable: the conversion then falls through
  \<^verbatim>\<open>valueOf\<close>, which returns no primitive, and throws a \<^verbatim>\<open>TypeError\<close>.
\<close>

fun to_string :: "json \<Rightarrow> exception + string"
  and join :: "json list \<Rightarrow> exception + string" where
  "to_string JUndefined = Inr ''undefined''"
| "to_string JNull = Inr ''null''"
| "to_string (JBool b) = Inr (if b then ''true'' else ''false'')"
| "to_string (JNum n) = Inr (number_text n)"
| "to_string (JNum_text t) = Inr t"
| "to_string (JStr s) = Inr s"
| "to_string (JArray xs) = join xs"
| "to_string (JObject kvs) =
     (if ''toString'' \<in> fst ` set kvs then Inl TypeError else Inr ''[object Object]'')"
| "join [] = Inr []"
| "join (x # xs) =
     (case (if x = JNull \<or> x = JUndefined then Inr [] else to_string x) of
        Inl e \<Rightarrow> Inl e
      | Inr t \<Rightarrow>
          (if xs = [] then Inr t
           else (case join xs of Inl e \<Rightarrow> Inl e | Inr u \<Rightarrow> Inr (t @ '','' @ u))))"

text \<open>\<^verbatim>\<open>parseInt(v)\<close>: the value is converted to a string, which is then read.\<close>

definition parseInt :: "json \<Rightarrow> exception + js_number" where
  "parseInt v = (case to_string v of Inl e \<Rightarrow> Inl e | Inr t \<Rightarrow> Inr (parseInt_string t))"

text \<open>
  \<^verbatim>\<open>Math.round(ms / (1000 * 60))\<close> on an integer \<open>ms\<close>: \<^verbatim>\<open>Math.round\<close> rounds to the
  nearest integer and a half towards \<open>+\<infinity>\<close>, that is \<open>\<lfloor>ms / 60000 + 1/2\<rfloor>\<close>. The
  quotient of two doubles is exact enough for this at the magnitude of clock readings.
\<close>

definition round_minutes :: "int \<Rightarrow> int" where
  "round_minutes ms = (ms + 30000) div 60000"

subsection \<open>Work records and settings\<close>

record work_record =
  rec_id :: int
  rec_date :: string
  rec_startTime :: string
  rec_endTime :: string
  rec_duration :: json
  rec_content :: string
  rec_type :: string

text \<open>The \<^verbatim>\<open>updates\<close> object of \<^verbatim>\<open>updateRecord\<close>: any subset of the fields.\<close>

record record_updates =
  upd_id :: "int option"
  upd_date :: "string option"
  upd_startTime :: "string option"
  upd_endTime :: "string option"
  upd_duration :: "json option"
  upd_content :: "string option"
  upd_type :: "string option"

text \<open>\<^verbatim>\<open>{ ...record, ...updates }\<close>\<close>

definition spread :: "work_record \<Rightarrow> record_updates \<Rightarrow> work_record" where
  "spread r u =
     \<lparr>rec_id = (case upd_id u of Some v \<Rightarrow> v | None \<Rightarrow> rec_id r),
      rec_date = (case upd_date u of Some v \<Rightarrow> v | None \<Rightarrow> rec_date r),
      rec_startTime = (case upd_startTime u of Some v \<Rightarrow> v | None \<Rightarrow> rec_startTime r),
      rec_endTime = (case upd_endTime u of Some v \<Rightarrow> v | None \<Rightarrow> rec_endTime r),
      rec_duration = (case upd_duration u of Some v \<Rightarrow> v | None \<Rightarrow> rec_duration r),
      rec_content = (case upd_content u of Some v \<Rightarrow> v | None \<Rightarrow> rec_content r),
      rec_type = (case upd_type u of Some v \<Rightarrow> v | None \<Rightarrow> rec_type r)\<rparr>"

record features =
  timer :: bool
  statistics :: bool
  export :: bool
  manualRecord :: bool

record settings =
  features :: "features option"
  workTypes :: "string list option"
  dateFormat :: "string option"
  timeFormat :: "string option"

text \<open>The category labels of the source, as UTF-8.\<close>

definition type_work :: string where
  "type_work = [CHR 0xE5, CHR 0xB7, CHR 0xA5, CHR 0xE4, CHR 0xBD, CHR 0x9C]"

definition type_life :: string where
  "type_life = [CHR 0xE7, CHR 0x94, CHR 0x9F, CHR 0xE6, CHR 0xB4, CHR 0xBB]"

definition type_sport :: string where
  "type_sport = [CHR 0xE8, CHR 0xBF, CHR 0x90, CHR 0xE5, CHR 0x8A, CHR 0xA8]"

definition type_study :: string where
  "type_study = [CHR 0xE5, CHR 0xAD, CHR 0xA6, CHR 0xE4, CHR 0xB9, CHR 0xA0]"

definition defaultSettings :: settings where
  "defaultSettings =
     \<lparr>features = Some \<lparr>timer = True, statistics = True, export = True, manualRecord = True\<rparr>,
      workTypes = Some [type_work, type_life, type_sport, type_study],
      dateFormat = Some ''yyyy-MM-dd'',
      timeFormat = Some ''HH:mm''\<rparr>"

text \<open>The empty object \<^verbatim>\<open>{}\<close> that \<^verbatim>\<open>getSettings\<close> returns when nothing is stored.\<close>

definition empty_settings :: settings where
  "empty_settings = \<lparr>features = None, workTypes = None, dateFormat = None, timeFormat = None\<rparr>"

subsection \<open>The storage module (StorageManager)\<close>

text \<open>
  The page's \<^verbatim>\<open>localStorage\<close>, one field for each key of \<^verbatim>\<open>STORAGE_KEYS\<close>
  (\<open>None\<close>: the key is absent). A value is kept as the object that
  \<^verbatim>\<open>JSON.parse\<close> gives back from the stored text. The stored records are an array
  of record objects with an id, a date and a type, as every write of the module leaves
  them; only the duration of a record is an arbitrary JSON value (a date or a type that
  is absent or not a string compares unequal to every date and to every category, as
  another string does). A stored text of
  another shape (not an array, or an array with a \<^verbatim>\<open>null\<close> element), on which the
  code's property accesses throw, is outside the model. \<open>ls_setItem_ok\<close> says whether
  \<^verbatim>\<open>localStorage.setItem\<close> succeeds (it throws when the quota is exceeded), and
  \<open>ls_writes\<close> counts the calls of \<^verbatim>\<open>setItem\<close> and \<^verbatim>\<open>removeItem\<close>.
\<close>

record local_storage =
  ls_records :: "work_record list option"
  ls_settings :: "settings option"
  ls_currentTimer :: "snapshot option"
  ls_setItem_ok :: bool
  ls_writes :: nat

definition empty_storage :: local_storage where
  "empty_storage =
     \<lparr>ls_records = None, ls_settings = None, ls_currentTimer = None,
      ls_setItem_ok = True, ls_writes = 0\<rparr>"

text \<open>
  What a storage operation hands back: a promise resolved with \<^verbatim>\<open>true\<close>, a rejected
  promise, or the plain booleans.
\<close>

datatype js_return = Resolved_true | Rejected | Return_true | Return_false

definition saveRecords :: "work_record list \<Rightarrow> local_storage \<Rightarrow> js_return \<times> local_storage" where
  "saveRecords records s =
     (if ls_setItem_ok s
      then (Resolved_true, s\<lparr>ls_records := Some records, ls_writes := Suc (ls_writes s)\<rparr>)
      else (Rejected, s\<lparr>ls_writes := Suc (ls_writes s)\<rparr>))"

definition getRecords :: "local_storage \<Rightarrow> work_record list" where
  "getRecords s = (case ls_records s of Some records \<Rightarrow> records | None \<Rightarrow> [])"

text \<open>\<^verbatim>\<open>record.id = Date.now(); records.push(record)\<close>\<close>

definition addRecord :: "int \<Rightarrow> work_record \<Rightarrow> local_storage \<Rightarrow> js_return \<times> local_storage" where
  "addRecord now record s = saveRecords (getRecords s @ [record\<lparr>rec_id := now\<rparr>]) s"

text \<open>\<^verbatim>\<open>Array.prototype.findIndex\<close>: the first index satisfying the test, if any.\<close>

fun findIndex :: "('a \<Rightarrow> bool) \<Rightarrow> 'a list \<Rightarrow> nat option" where
  "findIndex P [] = None"
| "findIndex P (x # xs) =
     (if P x then Some 0 else (case findIndex P xs of Some i \<Rightarrow> Some (Suc i) | None \<Rightarrow> None))"

definition updateRecord ::
  "int \<Rightarrow> record_updates \<Rightarrow> local_storage \<Rightarrow> js_return \<times> local_storage" where
  "updateRecord ident updates s =
     (let records = getRecords s
      in case findIndex (\<lambda>record. rec_id record = ident) records of
           Some index \<Rightarrow> saveRecords (records[index := spread (records ! index) updates]) s
         | None \<Rightarrow> (Return_false, s))"

definition deleteRecord :: "int \<Rightarrow> local_storage \<Rightarrow> js_return \<times> local_storage" where
  "deleteRecord ident s =
     (let records = getRecords s;
          newRecords = filter (\<lambda>record. rec_id record \<noteq> ident) records
      in if length newRecords \<noteq> length records then saveRecords newRecords s
         else (Return_false, s))"

definition saveSettings :: "settings \<Rightarrow> local_storage \<Rightarrow> js_return \<times> local_storage" where
  "saveSettings st s =
     (if ls_setItem_ok s
      then (Resolved_true, s\<lparr>ls_settings := Some st, ls_writes := Suc (ls_writes s)\<rparr>)
      else (Rejected, s\<lparr>ls_writes := Suc (ls_writes s)\<rparr>))"

definition getSettings :: "local_storage \<Rightarrow> settings" where
  "getSettings s = (case ls_settings s of Some st \<Rightarrow> st | None \<Rightarrow> empty_settings)"

text \<open>\<^verbatim>\<open>init()\<close>: the defaults, for the keys that are absent.\<close>

definition init :: "local_storage \<Rightarrow> local_storage" where
  "init s =
     (let s1 = (if ls_settings s = None then snd (saveSettings defaultSettings s) else s)
      in if ls_records s1 = None then snd (saveRecords [] s1) else s1)"

definition saveCurrentTimer :: "snapshot \<Rightarrow> local_storage \<Rightarrow> js_return \<times> local_storage" where
  "saveCurrentTimer t s =
     (if ls_setItem_ok s
      then (Return_true, s\<lparr>ls_currentTimer := Some t, ls_writes := Suc (ls_writes s)\<rparr>)
      else (Return_false, s\<lparr>ls_writes := Suc (ls_writes s)\<rparr>))"

definition getCurrentTimer :: "local_storage \<Rightarrow> snapshot option" where
  "getCurrentTimer s = ls_currentTimer s"

definition clearCurrentTimer :: "local_storage \<Rightarrow> js_return \<times> local_storage" where
  "clearCurrentTimer s =
     (Resolved_true, s\<lparr>ls_currentTimer := None, ls_writes := Suc (ls_writes s)\<rparr>)"

definition getRecordsByDate :: "local_storage \<Rightarrow> string \<Rightarrow> work_record list" where
  "getRecordsByDate s date = filter (\<lambda>record. rec_date record = date) (getRecords s)"

text \<open>
  \<^verbatim>\<open>Array.prototype.reduce\<close> with an initial value; an exception of the callback ends
  the reduction.
\<close>

fun reduce :: "('b \<Rightarrow> 'a \<Rightarrow> exception + 'b) \<Rightarrow> 'b \<Rightarrow> 'a list \<Rightarrow> exception + 'b" where
  "reduce f acc [] = Inr acc"
| "reduce f acc (x # xs) = (case f acc x of Inl e \<Rightarrow> Inl e | Inr acc' \<Rightarrow> reduce f acc' xs)"

text \<open>
  The callback of both \<^verbatim>\<open>reduce\<close> calls:
  \<^verbatim>\<open>(total, record) => total + parseInt(record.duration || 0)\<close>.
\<close>

definition add_duration :: "js_number \<Rightarrow> work_record \<Rightarrow> exception + js_number" where
  "add_duration total' record =
     (case parseInt (js_or (rec_duration record) (JNum 0)) of
        Inl e \<Rightarrow> Inl e
      | Inr minutes \<Rightarrow> Inr (js_add total' minutes))"

definition getTotalTimeByDate :: "local_storage \<Rightarrow> string \<Rightarrow> exception + js_number" where
  "getTotalTimeByDate s date = reduce add_duration (Exact 0) (getRecordsByDate s date)"

definition getWorkTimeExcludingLifeByDate ::
  "local_storage \<Rightarrow> string \<Rightarrow> exception + js_number" where
  "getWorkTimeExcludingLifeByDate s date =
     reduce add_duration (Exact 0)
       (filter (\<lambda>record. rec_type record \<noteq> type_life) (getRecordsByDate s date))"

subsection \<open>The options page (SettingsManager)\<close>

text \<open>
  The fields of the class that the category operations read or write: the settings
  object, the four check boxes, the text input and the status line (its text and its
  type, \<^verbatim>\<open>'error'\<close> or \<^verbatim>\<open>'success'\<close>). Rendering of the list is left out.
\<close>

record settings_manager =
  currentSettings :: settings
  timerToggle :: bool
  statisticsToggle :: bool
  exportToggle :: bool
  manualRecordToggle :: bool
  newWorkTypeInput :: string
  statusMessage :: "(string \<times> string) option"

text \<open>
  The page: the manager, the \<^verbatim>\<open>localStorage\<close> behind \<^verbatim>\<open>StorageManager\<close> and the
  \<^verbatim>\<open>SETTINGS_UPDATED\<close> messages sent so far.
\<close>

record options_page =
  sm :: settings_manager
  storage :: local_storage
  sent :: "settings list"

text \<open>The three status texts of the source, as UTF-8.\<close>

definition msg_type_exists :: string where
  "msg_type_exists =
     [CHR 0xE8, CHR 0xAF, CHR 0xA5, CHR 0xE9, CHR 0x80, CHR 0x89, CHR 0xE6, CHR 0x8B, CHR 0xA9,
      CHR 0xE7, CHR 0xB1, CHR 0xBB, CHR 0xE5, CHR 0x9E, CHR 0x8B, CHR 0xE5, CHR 0xB7, CHR 0xB2,
      CHR 0xE5, CHR 0xAD, CHR 0x98, CHR 0xE5, CHR 0x9C, CHR 0xA8]"

definition msg_keep_one_type :: string where
  "msg_keep_one_type =
     [CHR 0xE8, CHR 0x87, CHR 0xB3, CHR 0xE5, CHR 0xB0, CHR 0x91, CHR 0xE4, CHR 0xBF, CHR 0x9D,
      CHR 0xE7, CHR 0x95, CHR 0x99, CHR 0xE4, CHR 0xB8, CHR 0x80, CHR 0xE7, CHR 0xA7, CHR 0x8D,
      CHR 0xE9, CHR 0x80, CHR 0x89, CHR 0xE6, CHR 0x8B, CHR 0xA9, CHR 0xE7, CHR 0xB1, CHR 0xBB,
      CHR 0xE5, CHR 0x9E, CHR 0x8B]"

definition msg_settings_saved :: string where
  "msg_settings_saved =
     [CHR 0xE8, CHR 0xAE, CHR 0xBE, CHR 0xE7, CHR 0xBD, CHR 0xAE, CHR 0xE5, CHR 0xB7, CHR 0xB2,
      CHR 0xE4, CHR 0xBF, CHR 0x9D, CHR 0xE5, CHR 0xAD, CHR 0x98]"

definition showStatusMessage :: "string \<Rightarrow> string \<Rightarrow> options_page \<Rightarrow> options_page" where
  "showStatusMessage message' type' p = p\<lparr>sm := (sm p)\<lparr>statusMessage := Some (message', type')\<rparr>\<rparr>"

text \<open>\<^verbatim>\<open>currentSettings.features?.x ?? true\<close>\<close>

definition feature_or_true :: "settings \<Rightarrow> (features \<Rightarrow> bool) \<Rightarrow> bool" where
  "feature_or_true st sel = (case features st of Some f \<Rightarrow> sel f | None \<Rightarrow> True)"

definition loadSettings :: "options_page \<Rightarrow> options_page" where
  "loadSettings p =
     (let st = getSettings (storage p)
      in p\<lparr>sm := (sm p)\<lparr>currentSettings := st,
                         timerToggle := feature_or_true st timer,
                         statisticsToggle := feature_or_true st statistics,
                         exportToggle := feature_or_true st export,
                         manualRecordToggle := feature_or_true st manualRecord\<rparr>\<rparr>)"

text \<open>
  \<^verbatim>\<open>saveSettings()\<close> of the class: reads the check boxes into
  \<^verbatim>\<open>currentSettings.features\<close>, stores the settings, shows the success text and
  broadcasts \<^verbatim>\<open>SETTINGS_UPDATED\<close>.
\<close>

definition SettingsManager_saveSettings :: "options_page \<Rightarrow> options_page" where
  "SettingsManager_saveSettings p =
     (let m = sm p;
          st = (currentSettings m)
                 \<lparr>features := Some \<lparr>timer = timerToggle m, statistics = statisticsToggle m,
                                    export = exportToggle m, manualRecord = manualRecordToggle m\<rparr>\<rparr>;
          p1 = p\<lparr>sm := m\<lparr>currentSettings := st\<rparr>, storage := snd (saveSettings st (storage p))\<rparr>;
          p2 = showStatusMessage msg_settings_saved ''success'' p1
      in p2\<lparr>sent := sent p2 @ [st]\<rparr>)"

text \<open>\<^verbatim>\<open>currentSettings.workTypes ?? []\<close>\<close>

definition workTypes_or_empty :: "settings \<Rightarrow> string list" where
  "workTypes_or_empty st = (case workTypes st of Some ws \<Rightarrow> ws | None \<Rightarrow> [])"

definition SettingsManager_addWorkType :: "options_page \<Rightarrow> options_page" where
  "SettingsManager_addWorkType p =
     (let typeName = trim (newWorkTypeInput (sm p))
      in if typeName = [] then p
         else
           (let ws = workTypes_or_empty (currentSettings (sm p))
            in if typeName \<in> set ws then showStatusMessage msg_type_exists ''error'' p
               else SettingsManager_saveSettings
                      (p\<lparr>sm := (sm p)\<lparr>currentSettings :=
                                           (currentSettings (sm p))\<lparr>workTypes := Some (ws @ [typeName])\<rparr>,
                                         newWorkTypeInput := []\<rparr>\<rparr>)))"

text \<open>
  \<^verbatim>\<open>xs.splice(index, 1)\<close>: a negative index counts from the end, the start is clamped
  to the list, and the element at the start, if there is one, is removed.
\<close>

definition splice_one :: "int \<Rightarrow> 'a list \<Rightarrow> 'a list" where
  "splice_one index xs =
     (let n = int (length xs);
          start = nat (if index < 0 then max (n + index) 0 else min index n)
      in take start xs @ drop (Suc start) xs)"

definition SettingsManager_deleteWorkType :: "int \<Rightarrow> options_page \<Rightarrow> options_page" where
  "SettingsManager_deleteWorkType index p =
     (let ws = workTypes_or_empty (currentSettings (sm p))
      in if length ws \<le> 1 then showStatusMessage msg_keep_one_type ''error'' p
         else SettingsManager_saveSettings
                (p\<lparr>sm := (sm p)\<lparr>currentSettings :=
                                     (currentSettings (sm p))\<lparr>workTypes := Some (splice_one index ws)\<rparr>\<rparr>\<rparr>))"

text \<open>The category operations a user can perform on the page, and a sequence of them.\<close>

datatype category_op = Type_and_add string | Delete int

fun apply_category_op :: "category_op \<Rightarrow> options_page \<Rightarrow> options_page" where
  "apply_category_op (Type_and_add text') p =
     SettingsManager_addWorkType (p\<lparr>sm := (sm p)\<lparr>newWorkTypeInput := text'\<rparr>\<rparr>)"
| "apply_category_op (Delete index) p = SettingsManager_deleteWorkType index p"

definition apply_category_ops :: "category_op list \<Rightarrow> options_page \<Rightarrow> options_page" where
  "apply_category_ops ops p = foldl (\<lambda>q op. apply_category_op op q) p ops"

text \<open>The page as \<^verbatim>\<open>new SettingsManager()\<close> leaves it over a given storage.\<close>

definition open_options :: "local_storage \<Rightarrow> options_page" where
  "open_options s =
     loadSettings
       \<lparr>sm = \<lparr>currentSettings = empty_settings, timerToggle = False, statisticsToggle = False,
              exportToggle = False, manualRecordToggle = False, newWorkTypeInput = [],
              statusMessage = None\<rparr>,
        storage = s, sent = []\<rparr>"

subsection \<open>The popup (TimerManager)\<close>

text \<open>
  The fields of the class that the timer logic reads or writes. \<open>this_timerInterval\<close>
  says whether the display interval is live; \<open>this_startTime\<close> is \<open>None\<close> for
  \<^verbatim>\<open>null\<close>; \<open>workTypeSelect_value\<close> is the selected category. The text of the display,
  the button states and the table of records are rendering and are left out.
\<close>

record timer_manager =
  this_timerInterval :: bool
  this_isRunning :: bool
  this_startTime :: "int option"
  this_elapsedTime :: int
  this_currentDate :: string
  workTypeSelect_value :: string

text \<open>
  The popup together with what it talks to: the service worker and the page's
  \<^verbatim>\<open>localStorage\<close>.
\<close>

record world =
  tm :: timer_manager
  bg :: authority
  ls :: local_storage

text \<open>
  \<^verbatim>\<open>chrome.runtime.sendMessage\<close>: the service worker handles the message; the reply is
  what the callback, if any, receives.
\<close>

definition sendMessage :: "int \<Rightarrow> message \<Rightarrow> world \<Rightarrow> response \<times> world" where
  "sendMessage now m w = (let (r, a) = onMessage now m (bg w) in (r, w\<lparr>bg := a\<rparr>))"

text \<open>A \<^verbatim>\<open>startTime\<close> used as a number: \<^verbatim>\<open>null\<close> converts to \<open>0\<close>.\<close>

definition to_number :: "int option \<Rightarrow> int" where
  "to_number v = (case v of Some n \<Rightarrow> n | None \<Rightarrow> 0)"

text \<open>
  \<^verbatim>\<open>updateTimerDisplay()\<close>: while running it asks the service worker and, on a running
  reply, sets \<^verbatim>\<open>elapsedTime\<close> to the time since the reply's \<^verbatim>\<open>startTime\<close>; every other
  branch only writes the display.
\<close>

definition TimerManager_updateTimerDisplay :: "int \<Rightarrow> world \<Rightarrow> world" where
  "TimerManager_updateTimerDisplay now w =
     (if this_isRunning (tm w)
      then (case sendMessage now GET_TIMER_STATUS w of
              (Timer response', w1) \<Rightarrow>
                if isRunning response'
                then w1\<lparr>tm := (tm w1)\<lparr>this_elapsedTime := now - startTime response'\<rparr>\<rparr>
                else w1
            | (Status _, w1) \<Rightarrow> w1)
      else w)"

definition TimerManager_startTimer :: "int \<Rightarrow> world \<Rightarrow> world" where
  "TimerManager_startTimer now w =
     (if this_isRunning (tm w) then w
      else
        (let start = now - this_elapsedTime (tm w);
             elapsed = this_elapsedTime (tm w);
             w1 = w\<lparr>tm := (tm w)\<lparr>this_isRunning := True, this_startTime := Some start\<rparr>\<rparr>;
             w2 = snd (sendMessage now
                        (START_TIMER \<lparr>data_startTime = start, data_elapsedTime = elapsed\<rparr>) w1);
             w3 = w2\<lparr>tm := (tm w2)\<lparr>this_timerInterval := True\<rparr>\<rparr>
         in w3\<lparr>ls := snd (saveCurrentTimer
                             \<lparr>isRunning = True, startTime = start, elapsedTime = elapsed\<rparr>
                             (ls w3))\<rparr>))"

text \<open>
  \<^verbatim>\<open>pauseTimer()\<close> of the class. A \<^verbatim>\<open>null\<close> start time would be stored as such; it is
  written here as the number it converts to.
\<close>

definition TimerManager_pauseTimer :: "int \<Rightarrow> world \<Rightarrow> world" where
  "TimerManager_pauseTimer now w =
     (if \<not> this_isRunning (tm w) then w
      else
        (let elapsed = now - to_number (this_startTime (tm w));
             w1 = w\<lparr>tm := (tm w)\<lparr>this_isRunning := False, this_timerInterval := False,
                                 this_elapsedTime := elapsed\<rparr>\<rparr>;
             w2 = snd (sendMessage now PAUSE_TIMER w1)
         in w2\<lparr>ls := snd (saveCurrentTimer
                             \<lparr>isRunning = False,
                              startTime = to_number (this_startTime (tm w2)),
                              elapsedTime = elapsed\<rparr>
                             (ls w2))\<rparr>))"

definition TimerManager_resumeTimer :: "int \<Rightarrow> world \<Rightarrow> world" where
  "TimerManager_resumeTimer now w = TimerManager_startTimer now w"

definition TimerManager_resetTimer :: "int \<Rightarrow> world \<Rightarrow> world" where
  "TimerManager_resetTimer now w =
     TimerManager_updateTimerDisplay now
       (w\<lparr>tm := (tm w)\<lparr>this_startTime := None, this_elapsedTime := 0\<rparr>\<rparr>)"

text \<open>
  \<^verbatim>\<open>formatTime(new Date(ms))\<close>: hours and minutes of the local time, two digits each.
  The local time zone is a parameter, its offset from UTC in minutes.
\<close>

definition two_digits :: "int \<Rightarrow> string" where
  "two_digits n = [char_of (48 + n div 10 mod 10), char_of (48 + n mod 10)]"

definition formatTime :: "int \<Rightarrow> int \<Rightarrow> string" where
  "formatTime tz ms =
     (let local_minutes = ms div 60000 + tz
      in two_digits (local_minutes div 60 mod 24) @ '':'' @ two_digits (local_minutes mod 60))"

definition content_timed_work :: string where
  "content_timed_work =
     [CHR 0xE8, CHR 0xAE, CHR 0xA1, CHR 0xE6, CHR 0x97, CHR 0xB6,
      CHR 0xE5, CHR 0xB7, CHR 0xA5, CHR 0xE4, CHR 0xBD, CHR 0x9C]"

text \<open>The errors of the spec's taxonomy.\<close>

datatype error = StorageUnavailable | NotFound | InvalidState | ValidationError

text \<open>
  \<^verbatim>\<open>endTimer()\<close>. The result is a sum so that a failure reported to the caller would be
  \<open>Inl\<close>; the source has no \<^verbatim>\<open>throw\<close> and calls neither \<^verbatim>\<open>alert\<close> nor
  \<^verbatim>\<open>showMessage\<close> here, so every branch is \<open>Inr\<close>. A falsy \<^verbatim>\<open>startTime\<close>
  (\<^verbatim>\<open>null\<close> or \<open>0\<close>) takes the early \<^verbatim>\<open>return\<close>. The record object is built without
  an id, which \<^verbatim>\<open>addRecord\<close> then sets: \<open>rec_id\<close> is \<open>0\<close> until then. The two clock
  readings of one call, for the end time and for the id, are taken to be the same.
\<close>

definition TimerManager_endTimer :: "int \<Rightarrow> int \<Rightarrow> world \<Rightarrow> error + world" where
  "TimerManager_endTimer tz now w =
     (if to_number (this_startTime (tm w)) = 0 then Inr w
      else
        (let start = to_number (this_startTime (tm w));
             w1 = w\<lparr>tm := (tm w)\<lparr>this_isRunning := False, this_timerInterval := False\<rparr>\<rparr>;
             endTime = now;
             durationMs = num_or (this_elapsedTime (tm w1)) (endTime - start);
             durationMinutes = round_minutes durationMs;
             record = \<lparr>rec_id = 0,
                       rec_date = this_currentDate (tm w1),
                       rec_startTime = formatTime tz start,
                       rec_endTime = formatTime tz endTime,
                       rec_duration = JNum durationMinutes,
                       rec_content = content_timed_work,
                       rec_type = workTypeSelect_value (tm w1)\<rparr>;
             w2 = w1\<lparr>ls := snd (addRecord now record (ls w1))\<rparr>;
             w3 = snd (sendMessage now CLEAR_TIMER w2);
             w4 = TimerManager_resetTimer now w3
         in Inr (w4\<lparr>ls := snd (clearCurrentTimer (ls w4))\<rparr>)))"

text \<open>
  \<^verbatim>\<open>loadTimerState()\<close>: a running reply of the service worker is adopted; otherwise a
  running snapshot in \<^verbatim>\<open>localStorage\<close> is adopted and announced to the service worker.
\<close>

definition TimerManager_loadTimerState :: "int \<Rightarrow> world \<Rightarrow> world" where
  "TimerManager_loadTimerState now w =
     (case sendMessage now GET_TIMER_STATUS w of
        (Timer response', w1) \<Rightarrow>
          (if isRunning response'
           then
             (let w2 = w1\<lparr>tm := (tm w1)\<lparr>this_isRunning := True,
                                        this_startTime := Some (startTime response'),
                                        this_elapsedTime := elapsedTime response'\<rparr>\<rparr>;
                  w3 = TimerManager_updateTimerDisplay now w2
              in w3\<lparr>tm := (tm w3)\<lparr>this_timerInterval := True\<rparr>\<rparr>)
           else
             (case getCurrentTimer (ls w1) of
                Some timerState' \<Rightarrow>
                  (if isRunning timerState'
                   then
                     (let w2 = w1\<lparr>tm := (tm w1)\<lparr>this_isRunning := True,
                                                this_startTime := Some (startTime timerState'),
                                                this_elapsedTime := elapsedTime timerState'\<rparr>\<rparr>;
                          w3 = TimerManager_updateTimerDisplay now w2;
                          w4 = snd (sendMessage now
                                     (START_TIMER
                                        \<lparr>data_startTime = to_number (this_startTime (tm w3)),
                                         data_elapsedTime = this_elapsedTime (tm w3)\<rparr>) w3)
                      in w4\<lparr>tm := (tm w4)\<lparr>this_timerInterval := True\<rparr>\<rparr>)
                   else w1)
              | None \<Rightarrow> w1))
      | (Status _, w1) \<Rightarrow> w1)"

text \<open>
  \<^verbatim>\<open>loadWorkTypes()\<close> refills the select element from
  \<^verbatim>\<open>settings.workTypes || ['...']\<close>; a refilled select shows its first option.
\<close>

definition TimerManager_loadWorkTypes :: "world \<Rightarrow> world" where
  "TimerManager_loadWorkTypes w =
     (let ws = (case workTypes (getSettings (ls w)) of Some ws \<Rightarrow> ws | None \<Rightarrow> [type_work])
      in w\<lparr>tm := (tm w)\<lparr>workTypeSelect_value := (case ws of [] \<Rightarrow> [] | t # _ \<Rightarrow> t)\<rparr>\<rparr>)"

text \<open>
  \<^verbatim>\<open>new TimerManager()\<close>: the constructor's field values, then \<^verbatim>\<open>init()\<close>. The date is
  \<^verbatim>\<open>new Date().toISOString().split('T')[0]\<close>, a parameter here.
\<close>

definition TimerManager_new :: "string \<Rightarrow> int \<Rightarrow> world \<Rightarrow> world" where
  "TimerManager_new today now w =
     TimerManager_loadWorkTypes
       (TimerManager_loadTimerState now
          (w\<lparr>tm := \<lparr>this_timerInterval = False, this_isRunning = False, this_startTime = None,
                     this_elapsedTime = 0, this_currentDate = today,
                     workTypeSelect_value = []\<rparr>\<rparr>))"

text \<open>
  The extension just installed, the popup opened for the first time on day \<open>today\<close>:
  empty stores but for the defaults of \<^verbatim>\<open>StorageManager.init()\<close>, a fresh service
  worker.
\<close>

definition installed :: "string \<Rightarrow> int \<Rightarrow> world" where
  "installed today now =
     TimerManager_new today now
       \<lparr>tm = \<lparr>this_timerInterval = False, this_isRunning = False, this_startTime = None,
              this_elapsedTime = 0, this_currentDate = today, workTypeSelect_value = []\<rparr>,
        bg = fresh_authority None,
        ls = init empty_storage\<rparr>"

subsection \<open>Runs of the timer\<close>

text \<open>
  What can happen to the popup and the service worker: the four buttons, the choice of
  a category, the two interval callbacks (the popup's display refresh and the service
  worker's tick, each firing only while its interval is live), the popup being closed
  and opened again (the page load runs \<^verbatim>\<open>StorageManager.init()\<close> and then
  \<^verbatim>\<open>new TimerManager()\<close>), and the service worker being stopped by the browser and
  woken up with fresh globals.
\<close>

datatype event =
  Start | Pause | Resume | Stop | Select string | Refresh | Tick | Reopen string | Restart

definition step :: "int \<Rightarrow> int \<Rightarrow> event \<Rightarrow> world \<Rightarrow> world" where
  "step tz now e w =
     (case e of
        Start \<Rightarrow> TimerManager_startTimer now w
      | Pause \<Rightarrow> TimerManager_pauseTimer now w
      | Resume \<Rightarrow> TimerManager_resumeTimer now w
      | Stop \<Rightarrow> (case TimerManager_endTimer tz now w of Inr w' \<Rightarrow> w' | Inl _ \<Rightarrow> w)
      | Select t \<Rightarrow> w\<lparr>tm := (tm w)\<lparr>workTypeSelect_value := t\<rparr>\<rparr>
      | Refresh \<Rightarrow> (if this_timerInterval (tm w) then TimerManager_updateTimerDisplay now w else w)
      | Tick \<Rightarrow> w\<lparr>bg := tick now (bg w)\<rparr>
      | Reopen today \<Rightarrow> TimerManager_new today now (w\<lparr>ls := init (ls w)\<rparr>)
      | Restart \<Rightarrow> w\<lparr>bg := fresh_authority (chrome_currentTimer (bg w))\<rparr>)"

text \<open>A run: events with the clock reading at which each happens.\<close>

fun run :: "int \<Rightarrow> (int \<times> event) list \<Rightarrow> world \<Rightarrow> world" where
  "run tz [] w = w"
| "run tz ((now, e) # es) w = run tz es (step tz now e w)"

subsection \<open>The spec's reading of the operations\<close>



text \<open>
  The duration of a record as the data model has it, integer minutes; zero when the
  field is missing or is not an integer.
\<close>

definition spec_duration :: "work_record \<Rightarrow> int" where
  "spec_duration r = (case rec_duration r of JNum n \<Rightarrow> n | _ \<Rightarrow> 0)"

text \<open>
  A duration of the data model: missing (absent, \<^verbatim>\<open>null\<close>, \<^verbatim>\<open>false\<close>, \<open>0\<close> or the
  empty string), or a safe integer.
\<close>

definition plain :: "work_record \<Rightarrow> bool" where
  "plain r = (case rec_duration r of JNum n \<Rightarrow> \<bar>n\<bar> \<le> 2 ^ 53 | v \<Rightarrow> \<not> truthy v)"

text \<open>
  An array, and an object with a key \<^verbatim>\<open>toString\<close> of its own.
\<close>

fun is_array :: "json \<Rightarrow> bool" where
  "is_array (JArray xs) = True"
| "is_array _ = False"

fun toString_object :: "json \<Rightarrow> bool" where
  "toString_object (JObject kvs) = (''toString'' \<in> fst ` set kvs)"
| "toString_object _ = False"

text \<open>
  The minutes that the sums read from a record, when they read a safe integer; and
  whether they do, from a duration that is not an array.
\<close>

definition minutes_read :: "work_record \<Rightarrow> int" where
  "minutes_read r =
     (case parseInt (js_or (rec_duration r) (JNum 0)) of Inr (Exact n) \<Rightarrow> n | _ \<Rightarrow> 0)"

definition readable :: "work_record \<Rightarrow> bool" where
  "readable r =
     (\<not> is_array (rec_duration r)
      \<and> (case parseInt (js_or (rec_duration r) (JNum 0)) of
            Inr (Exact n) \<Rightarrow> True
          | _ \<Rightarrow> False))"

text \<open>
  ``The sum of durations of the records on that date whose type is the life category'',
  of the durations of the data model and of the minutes read.
\<close>

definition spec_life_minutes :: "local_storage \<Rightarrow> string \<Rightarrow> int" where
  "spec_life_minutes s date =
     sum_list (map spec_duration
       (filter (\<lambda>r. rec_type r = type_life) (getRecordsByDate s date)))"

definition life_minutes_read :: "local_storage \<Rightarrow> string \<Rightarrow> int" where
  "life_minutes_read s date =
     sum_list (map minutes_read
       (filter (\<lambda>r. rec_type r = type_life) (getRecordsByDate s date)))"

text \<open>
  That the minutes read on a date stay within the safe integers however they are added
  up: their absolute values sum to at most \<open>2\<^sup>5\<^sup>3\<close>.
\<close>

definition within_safe :: "work_record list \<Rightarrow> bool" where
  "within_safe rs \<longleftrightarrow> sum_list (map (\<lambda>r. \<bar>minutes_read r\<bar>) rs) \<le> 2 ^ 53"

text \<open>
  The values whose conversion to a string throws: an object with a key \<^verbatim>\<open>toString\<close>,
  and an array that holds such a value at any depth.
\<close>

fun throwing :: "json \<Rightarrow> bool" where
  "throwing (JObject kvs) = (''toString'' \<in> fst ` set kvs)"
| "throwing (JArray xs) = (\<exists>x\<in>set xs. throwing x)"
| "throwing _ = False"

subsection \<open>Invariants of a run\<close>

text \<open>
  At clock reading \<open>T\<close>: a snapshot has a non-negative elapsed time and, when it says
  running, a start time that is not in the future.
\<close>

definition snap_ok :: "int \<Rightarrow> snapshot \<Rightarrow> bool" where
  "snap_ok T t \<longleftrightarrow> 0 \<le> elapsedTime t \<and> (isRunning t \<longrightarrow> startTime t \<le> T)"

definition authority_ok :: "int \<Rightarrow> authority \<Rightarrow> bool" where
  "authority_ok T a \<longleftrightarrow>
     snap_ok T (timerState a)
   \<and> (\<forall>t. chrome_currentTimer a = Some t \<longrightarrow> snap_ok T t)
   \<and> (timerInterval a \<longrightarrow>
        isRunning (timerState a) \<and> (\<exists>t. chrome_currentTimer a = Some t \<and> isRunning t))"

definition popup_ok :: "int \<Rightarrow> timer_manager \<Rightarrow> bool" where
  "popup_ok T m \<longleftrightarrow>
     0 \<le> this_elapsedTime m
   \<and> (\<forall>s. this_startTime m = Some s \<longrightarrow> s \<le> T)
   \<and> (this_isRunning m \<longrightarrow> this_startTime m \<noteq> None)"

definition storage_ok :: "int \<Rightarrow> local_storage \<Rightarrow> bool" where
  "storage_ok T s \<longleftrightarrow>
     (\<forall>t. ls_currentTimer s = Some t \<longrightarrow> snap_ok T t)
   \<and> (\<forall>r\<in>set (getRecords s). \<exists>n. rec_duration r = JNum n \<and> 0 \<le> n)"

definition consistent :: "int \<Rightarrow> world \<Rightarrow> bool" where
  "consistent T w \<longleftrightarrow> popup_ok T (tm w) \<and> authority_ok T (bg w) \<and> storage_ok T (ls w)"

text \<open>
  A running snapshot held or stored by the authority has a start time other than \<open>0\<close>,
  the value that JavaScript takes for absent.
\<close>

definition started_nonzero :: "authority \<Rightarrow> bool" where
  "started_nonzero a \<longleftrightarrow>
     (isRunning (timerState a) \<longrightarrow> startTime (timerState a) \<noteq> 0)
   \<and> (\<forall>t. chrome_currentTimer a = Some t \<and> isRunning t \<longrightarrow> startTime t \<noteq> 0)"

text \<open>The category list in memory and the stored one are both non-empty.\<close>

definition categories_ok :: "options_page \<Rightarrow> bool" where
  "categories_ok p \<longleftrightarrow>
     workTypes_or_empty (currentSettings (sm p)) \<noteq> []
   \<and> (\<forall>st. ls_settings (storage p) = Some st \<longrightarrow> workTypes_or_empty st \<noteq> [])"

subsection \<open>Concrete inputs\<close>

definition example_record :: "int \<Rightarrow> string \<Rightarrow> json \<Rightarrow> work_record" where
  "example_record ident type' duration =
     \<lparr>rec_id = ident, rec_date = ''2024-01-01'', rec_startTime = ''09:00'',
      rec_endTime = ''10:00'', rec_duration = duration, rec_content = ''x'',
      rec_type = type'\<rparr>"

text \<open>A life record whose duration is the string \<^verbatim>\<open>"abc"\<close>, and an hour of work.\<close>

definition stored_life_abc :: local_storage where
  "stored_life_abc =
     empty_storage\<lparr>ls_records :=
       Some [example_record 1 type_life (JStr ''abc''), example_record 2 type_work (JNum 60)]\<rparr>"

text \<open>A work record whose duration is the string \<^verbatim>\<open>"abc"\<close>, and an hour of work.\<close>

definition stored_work_abc :: local_storage where
  "stored_work_abc =
     empty_storage\<lparr>ls_records :=
       Some [example_record 1 type_work (JStr ''abc''), example_record 2 type_work (JNum 60)]\<rparr>"

text \<open>
  Half an hour of life, a work record with no duration and a work record whose duration is
  the string \<^verbatim>\<open>"45"\<close>; and the same with the number 45.
\<close>

definition stored_mixed :: local_storage where
  "stored_mixed =
     empty_storage\<lparr>ls_records :=
       Some [example_record 1 type_life (JNum 30), example_record 2 type_work JUndefined,
             example_record 3 type_work (JStr ''45'')]\<rparr>"

definition stored_plain :: local_storage where
  "stored_plain =
     empty_storage\<lparr>ls_records :=
       Some [example_record 1 type_life (JNum 30), example_record 2 type_work JUndefined,
             example_record 3 type_work (JNum 45)]\<rparr>"

text \<open>
  A work record whose duration is an object with a key \<^verbatim>\<open>toString\<close>, as
  \<^verbatim>\<open>{"toString": 1}\<close> is read from JSON, and an hour of work.
\<close>

definition stored_work_object :: local_storage where
  "stored_work_object =
     empty_storage\<lparr>ls_records :=
       Some [example_record 1 type_work (JObject [(''toString'', JNum 1)]),
             example_record 2 type_work (JNum 60)]\<rparr>"

text \<open>An authority that was paused after half a minute.\<close>

definition paused_authority :: authority where
  "paused_authority =
     \<lparr>timerInterval = False,
      timerState = \<lparr>isRunning = False, startTime = 60000, elapsedTime = 30000\<rparr>,
      chrome_currentTimer = Some \<lparr>isRunning = False, startTime = 60000, elapsedTime = 30000\<rparr>,
      chrome_writes = 2\<rparr>"




section \<open>The timer authority\<close>

text \<open>
  While the clock does not read \<open>0\<close>, the authority never holds or stores a running
  snapshot whose start time is \<open>0\<close>: \<^verbatim>\<open>startTimer\<close> replaces such a start time by the
  clock reading, and nothing else sets a start time.
\<close>

lemma started_nonzero_fresh: "started_nonzero (fresh_authority None)"
  by (simp add: started_nonzero_def fresh_authority_def initial_timerState_def)

lemma started_nonzero_restart:
  "started_nonzero a \<Longrightarrow> started_nonzero (fresh_authority (chrome_currentTimer a))"
  by (simp add: started_nonzero_def fresh_authority_def initial_timerState_def)

lemma started_nonzero_tick: "started_nonzero a \<Longrightarrow> started_nonzero (tick now a)"
  by (auto simp: started_nonzero_def tick_def chrome_set_def)

lemma started_nonzero_onMessage:
  assumes "now \<noteq> 0" and "started_nonzero a"
  shows "started_nonzero (snd (onMessage now m a))"
proof (cases m)
  case (START_TIMER d)
  with assms(1) show ?thesis
    by (simp add: onMessage_def started_nonzero_def startTimer_def chrome_set_def num_or_def)
next
  case PAUSE_TIMER
  with assms(2) show ?thesis
    by (auto simp: onMessage_def started_nonzero_def pauseTimer_def chrome_set_def Let_def)
next
  case CLEAR_TIMER
  then show ?thesis
    by (simp add: onMessage_def started_nonzero_def clearTimer_def chrome_remove_def
        initial_timerState_def)
next
  case GET_TIMER_STATUS
  with assms show ?thesis
    by (auto simp: onMessage_def started_nonzero_def getTimerStatus_def startTimer_def
        chrome_set_def num_or_def Let_def split: option.splits prod.splits)
next
  case (Other_type t)
  with assms(2) show ?thesis by (simp add: onMessage_def)
qed

text \<open>
  C1. A service worker that was restarted (globals at their initial values) while the
  stored snapshot says running answers \<^verbatim>\<open>GET_TIMER_STATUS\<close> with a running snapshot
  whose elapsed time is the stored one (it is not reset to zero), and is itself running
  again: the interval is live, and state and store hold the reply. The start time of the
  reply is the stored one, but for the value \<open>0\<close> that the \<^verbatim>\<open>||\<close> default replaces by
  the current instant; so with a stored start time other than \<open>0\<close> the reply is the stored
  snapshot itself and every later tick computes the elapsed time from the stored start
  time. By the lemmas above a running snapshot that the authority stored itself has such
  a start time.
\<close>

theorem C1_status_rehydrates_running:
  assumes "isRunning persisted"
  shows "isRunning (fst (getTimerStatus now (fresh_authority (Some persisted))))
       \<and> elapsedTime (fst (getTimerStatus now (fresh_authority (Some persisted))))
           = elapsedTime persisted
       \<and> startTime (fst (getTimerStatus now (fresh_authority (Some persisted))))
           = num_or (startTime persisted) now
       \<and> timerInterval (snd (getTimerStatus now (fresh_authority (Some persisted))))
       \<and> timerState (snd (getTimerStatus now (fresh_authority (Some persisted))))
           = fst (getTimerStatus now (fresh_authority (Some persisted)))
       \<and> chrome_currentTimer (snd (getTimerStatus now (fresh_authority (Some persisted))))
           = Some (fst (getTimerStatus now (fresh_authority (Some persisted))))
       \<and> fst (onMessage now GET_TIMER_STATUS (fresh_authority (Some persisted)))
           = Timer (fst (getTimerStatus now (fresh_authority (Some persisted))))
       \<and> (startTime persisted \<noteq> 0 \<longrightarrow>
            fst (getTimerStatus now (fresh_authority (Some persisted))) = persisted
          \<and> (\<forall>t. elapsedTime (timerState
                     (tick t (snd (getTimerStatus now (fresh_authority (Some persisted))))))
                  = t - startTime persisted))"
  using assms
  by (simp add: getTimerStatus_def onMessage_def fresh_authority_def startTimer_def
      chrome_set_def num_or_def tick_def Let_def split: prod.splits)

theorem C1_witness:
  "getTimerStatus 9000
     (fresh_authority (Some \<lparr>isRunning = True, startTime = 1000, elapsedTime = 5000\<rparr>))
   = (\<lparr>isRunning = True, startTime = 1000, elapsedTime = 5000\<rparr>,
      \<lparr>timerInterval = True,
       timerState = \<lparr>isRunning = True, startTime = 1000, elapsedTime = 5000\<rparr>,
       chrome_currentTimer = Some \<lparr>isRunning = True, startTime = 1000, elapsedTime = 5000\<rparr>,
       chrome_writes = 1\<rparr>)
   \<and> elapsedTime (timerState (tick 9500 (snd (getTimerStatus 9000
        (fresh_authority (Some \<lparr>isRunning = True, startTime = 1000, elapsedTime = 5000\<rparr>))))))
     = 8500"
proof -
  let ?p = "\<lparr>isRunning = True, startTime = 1000, elapsedTime = 5000\<rparr>"
  have r: "isRunning ?p" by simp
  have z: "startTime ?p \<noteq> 0" by simp
  note c = C1_status_rehydrates_running [OF r, of 9000]
  from c z have f: "fst (getTimerStatus 9000 (fresh_authority (Some ?p))) = ?p"
    by blast
  from c z have t: "elapsedTime (timerState (tick 9500 (snd (getTimerStatus 9000
      (fresh_authority (Some ?p)))))) = 9500 - startTime ?p"
    by blast
  from c f have "timerInterval (snd (getTimerStatus 9000 (fresh_authority (Some ?p))))"
    and "timerState (snd (getTimerStatus 9000 (fresh_authority (Some ?p)))) = ?p"
    and "chrome_currentTimer (snd (getTimerStatus 9000 (fresh_authority (Some ?p)))) = Some ?p"
    by simp_all
  moreover have "chrome_writes (snd (getTimerStatus 9000 (fresh_authority (Some ?p)))) = 1"
    by (simp add: getTimerStatus_def fresh_authority_def startTimer_def chrome_set_def Let_def)
  ultimately have "snd (getTimerStatus 9000 (fresh_authority (Some ?p)))
      = \<lparr>timerInterval = True, timerState = ?p, chrome_currentTimer = Some ?p, chrome_writes = 1\<rparr>"
    by (intro authority.equality) simp_all
  with f t show ?thesis by (simp add: prod_eq_iff)
qed

text \<open>
  C10. Pausing an authority whose state says not running leaves \<^verbatim>\<open>timerState\<close> and the
  stored snapshot as they are and calls the storage not at all; with no interval handle
  left over, as in every state that satisfies the invariant of the runs, nothing changes
  at all. In every state a second pause changes nothing after the first.
\<close>

theorem C10_pause_when_not_running:
  "(\<not> isRunning (timerState a) \<longrightarrow>
       timerState (pauseTimer now a) = timerState a
     \<and> chrome_currentTimer (pauseTimer now a) = chrome_currentTimer a
     \<and> chrome_writes (pauseTimer now a) = chrome_writes a
     \<and> (\<not> timerInterval a \<longrightarrow> pauseTimer now a = a)
     \<and> (authority_ok T a \<longrightarrow> pauseTimer now a = a))
   \<and> pauseTimer now' (pauseTimer now a) = pauseTimer now a"
  by (auto simp: pauseTimer_def chrome_set_def authority_ok_def Let_def)

theorem C10_witness:
  "\<not> isRunning (timerState paused_authority)
   \<and> pauseTimer 95000 paused_authority = paused_authority
   \<and> pauseTimer 99000 (pauseTimer 95000 paused_authority) = pauseTimer 95000 paused_authority"
proof -
  have n: "\<not> isRunning (timerState paused_authority)"
    and i: "\<not> timerInterval paused_authority"
    by (simp_all add: paused_authority_def)
  from C10_pause_when_not_running [of paused_authority 95000 _ 99000] n i show ?thesis
    by blast
qed

section \<open>The record ledger\<close>

lemma findIndex_None: "findIndex P xs = None \<longleftrightarrow> (\<forall>x\<in>set xs. \<not> P x)"
  by (induction xs) (auto split: option.splits)

lemma filter_keeps_length: "length (filter P xs) = length xs \<longleftrightarrow> (\<forall>x\<in>set xs. P x)"
proof (induction xs)
  case Nil
  show ?case by simp
next
  case (Cons x xs)
  have "length (filter P xs) \<noteq> Suc (length xs)"
    using length_filter_le [of P xs] by arith
  with Cons show ?case by auto
qed

text \<open>
  C9. For an id that no stored record has, \<^verbatim>\<open>deleteRecord\<close> and \<^verbatim>\<open>updateRecord\<close>
  both return \<^verbatim>\<open>false\<close> and leave the storage as it is: the record list is unchanged
  and \<^verbatim>\<open>setItem\<close> is not called.
\<close>

theorem C9_absent_id_no_write:
  assumes "ident \<notin> rec_id ` set (getRecords s)"
  shows "deleteRecord ident s = (Return_false, s)
       \<and> updateRecord ident updates s = (Return_false, s)"
proof -
  from assms have a: "\<forall>r\<in>set (getRecords s). rec_id r \<noteq> ident" by auto
  then have "findIndex (\<lambda>record. rec_id record = ident) (getRecords s) = None"
    by (simp add: findIndex_None)
  moreover from a have
    "length (filter (\<lambda>record. rec_id record \<noteq> ident) (getRecords s)) = length (getRecords s)"
    by (simp add: filter_keeps_length)
  ultimately show ?thesis by (simp add: deleteRecord_def updateRecord_def Let_def)
qed

theorem C9_witness:
  "5 \<notin> rec_id ` set (getRecords stored_mixed)
   \<and> deleteRecord 5 stored_mixed = (Return_false, stored_mixed)
   \<and> updateRecord 5
        \<lparr>upd_id = None, upd_date = None, upd_startTime = None, upd_endTime = None,
         upd_duration = Some (JNum 7), upd_content = None, upd_type = None\<rparr> stored_mixed
      = (Return_false, stored_mixed)"
proof -
  have a: "5 \<notin> rec_id ` set (getRecords stored_mixed)"
    by (simp add: stored_mixed_def getRecords_def empty_storage_def example_record_def)
  from C9_absent_id_no_write [OF a] a show ?thesis by simp
qed

text \<open>
  C5. Two \<^verbatim>\<open>addRecord\<close> calls that read the same value of \<^verbatim>\<open>Date.now()\<close> give both
  records that value as id: the second id is not greater than the first, and the ids are
  not unique.
\<close>

theorem C5_same_tick_same_id:
  "getRecords (snd (addRecord now r2 (snd (addRecord now r1 empty_storage))))
     = [r1\<lparr>rec_id := now\<rparr>, r2\<lparr>rec_id := now\<rparr>]"
  by (simp add: addRecord_def saveRecords_def getRecords_def empty_storage_def)

subsection \<open>The daily sums\<close>

text \<open>\<^verbatim>\<open>parseInt\<close> reads an integer number back from its decimal digits.\<close>

lemma digit_value_char: "d < 10 \<Longrightarrow> digit_value (char_of (48 + d)) = Some d"
  for d :: nat
  by (simp add: digit_value_def Let_def)

lemma digits_value_snoc:
  "digits_value radix (ds @ [c])
     = digits_value radix ds * int radix + (case digit_value c of Some d \<Rightarrow> int d | None \<Rightarrow> 0)"
  by (simp add: digits_value_def)

lemma decimal_digits: "\<forall>c\<in>set (decimal n). is_digit 10 c"
proof (induction n rule: decimal.induct)
  case (1 n)
  show ?case
  proof (cases "n < 10")
    case True
    then show ?thesis by (subst decimal.simps) (simp add: is_digit_def digit_value_char)
  next
    case False
    have "n mod 10 < 10" by simp
    then have "is_digit 10 (char_of (48 + n mod 10))"
      by (simp only: is_digit_def digit_value_char) simp
    with False 1 show ?thesis by (subst decimal.simps) simp
  qed
qed

lemma decimal_value: "digits_value 10 (decimal n) = int n"
proof (induction n rule: decimal.induct)
  case (1 n)
  show ?case
  proof (cases "n < 10")
    case True
    then show ?thesis
      by (subst decimal.simps) (simp add: digits_value_def digit_value_char)
  next
    case False
    have d: "digit_value (char_of (48 + n mod 10)) = Some (n mod 10)"
      by (rule digit_value_char) simp
    from False 1 have "digits_value 10 (decimal (n div 10)) = int (n div 10)" by simp
    with False d show ?thesis
      by (subst decimal.simps) (simp add: digits_value_snoc zdiv_int zmod_int)
  qed
qed

lemma decimal_not_empty: "decimal n \<noteq> []"
  by (subst decimal.simps) simp

lemma is_digit_10_code:
  "is_digit 10 c \<Longrightarrow> 48 \<le> (of_char c :: nat) \<and> (of_char c :: nat) \<le> 57"
  by (auto simp: is_digit_def digit_value_def Let_def split: if_splits)

lemma trim_start_ascii:
  assumes "\<not> white1 a" and "(of_char a :: nat) < 128"
  shows "trim_start (a # s) = a # s"
proof -
  from assms(2) have "a \<noteq> CHR 0xC2" "a \<noteq> CHR 0xE1" "a \<noteq> CHR 0xE2" "a \<noteq> CHR 0xE3" "a \<noteq> CHR 0xEF"
    by auto
  with assms(1) show ?thesis
    by (cases s; cases "tl s") (auto simp: white2_def white3_def)
qed

lemma digit_not_white: "is_digit 10 c \<Longrightarrow> \<not> white1 c"
  by (auto simp: white1_def is_digit_def digit_value_def Let_def)

lemma no_hex_prefix:
  assumes "\<forall>c\<in>set ds. is_digit 10 c"
  shows "\<not> (case ds of a # b # _ \<Rightarrow> a = CHR ''0'' \<and> (b = CHR ''x'' \<or> b = CHR ''X'') | _ \<Rightarrow> False)"
proof (cases ds)
  case Nil
  then show ?thesis by simp
next
  case (Cons a cs)
  show ?thesis
  proof (cases cs)
    case Nil
    with Cons show ?thesis by simp
  next
    case (Cons b bs)
    with assms \<open>ds = a # cs\<close> have "is_digit 10 b" by simp
    from is_digit_10_code [OF this] have "b \<noteq> CHR ''x''" "b \<noteq> CHR ''X''" by auto
    with Cons \<open>ds = a # cs\<close> show ?thesis by simp
  qed
qed

lemma parseInt_string_digits:
  assumes "ds \<noteq> []" and "\<forall>c\<in>set ds. is_digit 10 c"
  shows "parseInt_string ds = number_of (digits_value 10 ds)"
proof -
  from assms obtain c cs where ds: "ds = c # cs" and c: "is_digit 10 c"
    by (cases ds) auto
  from c have t: "trim_start ds = ds"
    unfolding ds using is_digit_10_code [OF c] by (intro trim_start_ascii digit_not_white) simp_all
  from c have s: "c \<noteq> CHR ''+''" "c \<noteq> CHR ''-''"
    using is_digit_10_code [OF c] by auto
  from assms(2) have w: "takeWhile (is_digit 10) ds = ds" by simp
  from s no_hex_prefix [OF assms(2)] have "parseInt_string ds
      = (let taken = takeWhile (is_digit 10) ds
         in if taken = [] then NaN else number_of (digits_value 10 taken))"
    unfolding parseInt_string_def t by (simp add: ds Let_def split: list.splits)
  then show ?thesis unfolding Let_def w using assms(1) by simp
qed

lemma parseInt_string_minus_digits:
  assumes "ds \<noteq> []" and "\<forall>c\<in>set ds. is_digit 10 c"
  shows "parseInt_string (CHR ''-'' # ds) = number_of (- digits_value 10 ds)"
proof -
  have t: "trim_start (CHR ''-'' # ds) = CHR ''-'' # ds"
    by (rule trim_start_ascii) (simp_all add: white1_def)
  from assms(2) have w: "takeWhile (is_digit 10) ds = ds" by simp
  from no_hex_prefix [OF assms(2)] have "parseInt_string (CHR ''-'' # ds)
      = (let taken = takeWhile (is_digit 10) ds
         in if taken = [] then NaN else number_of (- 1 * digits_value 10 taken))"
    unfolding parseInt_string_def t by (simp add: Let_def split: list.splits)
  then show ?thesis unfolding Let_def w using assms(1) by simp
qed

lemma parseInt_string_number_text: "parseInt_string (number_text n) = number_of n"
proof (cases "n < 0")
  case True
  then show ?thesis
    using parseInt_string_minus_digits [OF decimal_not_empty decimal_digits, of "nat (- n)"]
    by (simp add: number_text_def decimal_value)
next
  case False
  then show ?thesis
    using parseInt_string_digits [OF decimal_not_empty decimal_digits, of "nat n"]
    by (simp add: number_text_def decimal_value)
qed

lemma parseInt_JNum: "parseInt (JNum n) = Inr (number_of n)"
  by (simp add: parseInt_def parseInt_string_number_text)

lemma parseInt_string_abc: "parseInt_string ''abc'' = NaN"
  by (simp add: parseInt_string_def white1_def white2_def white3_def is_digit_def digit_value_def)

text \<open>The conversion to a string throws on the values of \<open>throwing\<close> and on no other.\<close>

lemma only_TypeError: "e = TypeError"
  by (cases e)

lemma to_string_throws:
  "(to_string v = Inl TypeError) = throwing v"
  "(join xs = Inl TypeError) = (\<exists>x\<in>set xs. throwing x)"
  by (induction v and xs rule: to_string_join.induct)
    (auto simp: only_TypeError split: sum.splits if_splits)

lemma parseInt_throws: "(parseInt v = Inl TypeError) = throwing v"
  using to_string_throws(1) [of v] by (auto simp: parseInt_def split: sum.splits)

lemma throwing_js_or: "throwing (js_or v (JNum 0)) = throwing v"
  by (cases v) (simp_all add: js_or_def)

lemma add_duration_throws:
  "(add_duration t r = Inl TypeError) = throwing (rec_duration r)"
  using parseInt_throws [of "js_or (rec_duration r) (JNum 0)"]
  by (auto simp: add_duration_def throwing_js_or split: sum.splits)

lemma reduce_add_duration_throws:
  "(reduce add_duration t rs = Inl TypeError) = (\<exists>r\<in>set rs. throwing (rec_duration r))"
proof (induction rs arbitrary: t)
  case Nil
  show ?case by simp
next
  case (Cons r rs)
  show ?case
  proof (cases "add_duration t r")
    case (Inl e)
    then have a: "add_duration t r = Inl TypeError" by (simp add: only_TypeError)
    then have "throwing (rec_duration r)" by (simp add: add_duration_throws)
    with a show ?thesis by simp
  next
    case (Inr t')
    then have "\<not> throwing (rec_duration r)"
      using add_duration_throws [of t r] by simp
    with Inr Cons show ?thesis by simp
  qed
qed

lemma falsy_reads_zero:
  assumes "\<not> truthy (rec_duration r)"
  shows "parseInt (js_or (rec_duration r) (JNum 0)) = Inr (Exact 0)"
  using assms by (simp add: js_or_def parseInt_JNum number_of_def)

lemma plain_reads:
  assumes "plain r"
  shows "parseInt (js_or (rec_duration r) (JNum 0)) = Inr (Exact (spec_duration r))"
proof (cases "truthy (rec_duration r)")
  case False
  then have "spec_duration r = 0"
    by (cases "rec_duration r") (simp_all add: spec_duration_def)
  with False show ?thesis by (simp add: falsy_reads_zero)
next
  case True
  with assms obtain n where "rec_duration r = JNum n" "\<bar>n\<bar> \<le> 2 ^ 53"
    by (cases "rec_duration r") (auto simp: plain_def)
  with True show ?thesis
    by (simp add: js_or_def parseInt_JNum number_of_def spec_duration_def)
qed

lemma plain_not_array: "plain r \<Longrightarrow> \<not> is_array (rec_duration r)"
  by (cases "rec_duration r") (simp_all add: plain_def)

lemma plain_readable: "plain r \<Longrightarrow> readable r \<and> minutes_read r = spec_duration r"
  by (simp add: readable_def minutes_read_def plain_reads plain_not_array)

lemma js_add_zero: "js_add (number_of x) (Exact 0) = number_of x" "js_add NaN (Exact 0) = NaN"
  by (simp_all add: number_of_def)

lemma reduce_readable:
  assumes "\<forall>r\<in>set rs. readable r"
    and "\<bar>a\<bar> + sum_list (map (\<lambda>r. \<bar>minutes_read r\<bar>) rs) \<le> 2 ^ 53"
  shows "reduce add_duration (Exact a) rs = Inr (Exact (a + sum_list (map minutes_read rs)))"
  using assms
proof (induction rs arbitrary: a)
  case Nil
  show ?case by simp
next
  case (Cons r rs)
  from Cons.prems(1) obtain n where n: "parseInt (js_or (rec_duration r) (JNum 0)) = Inr (Exact n)"
    by (auto simp: readable_def split: sum.splits js_number.splits)
  then have m: "minutes_read r = n" by (simp add: minutes_read_def)
  have nonneg: "0 \<le> sum_list (map (\<lambda>r. \<bar>minutes_read r\<bar>) rs)"
    by (rule sum_list_nonneg) auto
  from Cons.prems(2) m nonneg have b: "\<bar>a\<bar> \<le> 2 ^ 53" "\<bar>n\<bar> \<le> 2 ^ 53" "\<bar>a + n\<bar> \<le> 2 ^ 53"
    by simp_all
  from n b have step: "add_duration (Exact a) r = Inr (Exact (a + n))"
    by (simp add: add_duration_def number_of_def)
  from Cons.prems(2) m have "\<bar>a + n\<bar> + sum_list (map (\<lambda>r. \<bar>minutes_read r\<bar>) rs) \<le> 2 ^ 53"
    by simp
  with Cons.IH [of "a + n"] Cons.prems(1)
  have "reduce add_duration (Exact (a + n)) rs
      = Inr (Exact (a + n + sum_list (map minutes_read rs)))"
    by simp
  with step m show ?case by (simp add: add.assoc)
qed

lemma sum_list_filter_split:
  fixes f :: "'a \<Rightarrow> int"
  shows "sum_list (map f xs)
       = sum_list (map f (filter P xs)) + sum_list (map f (filter (\<lambda>x. \<not> P x) xs))"
  by (induction xs) simp_all

lemma sum_list_filter_le:
  fixes f :: "'a \<Rightarrow> int"
  assumes "\<forall>x\<in>set xs. 0 \<le> f x"
  shows "sum_list (map f (filter P xs)) \<le> sum_list (map f xs)"
  using assms by (induction xs) auto

lemma abs_sum_list_le:
  fixes f :: "'a \<Rightarrow> int"
  shows "\<bar>sum_list (map f xs)\<bar> \<le> sum_list (map (\<lambda>x. \<bar>f x\<bar>) xs)"
  by (induction xs) auto

lemma total_readable:
  assumes "\<forall>r\<in>set (getRecordsByDate s date). readable r"
    and "within_safe (getRecordsByDate s date)"
  shows "getTotalTimeByDate s date
       = Inr (Exact (sum_list (map minutes_read (getRecordsByDate s date))))"
  using reduce_readable [OF assms(1), of 0] assms(2)
  by (simp add: getTotalTimeByDate_def within_safe_def)

lemma excluding_readable:
  assumes "\<forall>r\<in>set (getRecordsByDate s date). readable r"
    and "within_safe (getRecordsByDate s date)"
  shows "getWorkTimeExcludingLifeByDate s date
       = Inr (Exact (sum_list (map minutes_read
                 (filter (\<lambda>r. rec_type r \<noteq> type_life) (getRecordsByDate s date)))))"
proof -
  let ?rs = "filter (\<lambda>r. rec_type r \<noteq> type_life) (getRecordsByDate s date)"
  have r: "\<forall>r\<in>set ?rs. readable r" using assms(1) by simp
  have "sum_list (map (\<lambda>r. \<bar>minutes_read r\<bar>) ?rs)
      \<le> sum_list (map (\<lambda>r. \<bar>minutes_read r\<bar>) (getRecordsByDate s date))"
    by (rule sum_list_filter_le) simp
  with assms(2) have "\<bar>0\<bar> + sum_list (map (\<lambda>r. \<bar>minutes_read r\<bar>) ?rs) \<le> 2 ^ 53"
    by (simp add: within_safe_def)
  from reduce_readable [OF r this] show ?thesis
    by (simp add: getWorkTimeExcludingLifeByDate_def)
qed

text \<open>
  C6, as the claim states it, fails: with a life record whose duration is the string
  \<^verbatim>\<open>"abc"\<close> and an hour of work on the same day, the total is \<^verbatim>\<open>NaN\<close> while the
  sum without life is 60, which is not the total minus the minutes of life, nor the total
  minus anything else.
\<close>

theorem C6_counterexample:
  "getTotalTimeByDate stored_life_abc ''2024-01-01'' = Inr NaN
   \<and> getWorkTimeExcludingLifeByDate stored_life_abc ''2024-01-01'' = Inr (Exact 60)
   \<and> (\<forall>x. js_sub NaN x \<noteq> Exact 60)"
proof -
  have "getTotalTimeByDate stored_life_abc ''2024-01-01'' = Inr NaN" by code_simp
  moreover have "getWorkTimeExcludingLifeByDate stored_life_abc ''2024-01-01'' = Inr (Exact 60)"
    by code_simp
  ultimately show ?thesis by simp
qed

text \<open>
  C6, amended. For every stored list of record objects and every date such that the sums
  read a safe integer from each duration on that date (zero from a missing duration,
  the integer itself from an integer, the leading integer from a fraction or a string;
  no duration is an array) and the absolute values of these integers add up to at most
  \<open>2\<^sup>5\<^sup>3\<close>, the total is an integer and the sum without life equals the total minus
  the sum of the integers read from that date's life records. When every duration on
  that date is missing or a safe integer, these are the durations themselves: the sum
  without life is the total minus the sum of the durations of the life records.
\<close>

theorem C6_excluding_is_total_minus_life:
  assumes "\<forall>r\<in>set (getRecordsByDate s date). readable r"
    and "within_safe (getRecordsByDate s date)"
  shows "\<exists>t. getTotalTimeByDate s date = Inr (Exact t)
           \<and> getWorkTimeExcludingLifeByDate s date
               = Inr (js_sub (Exact t) (Exact (life_minutes_read s date)))
           \<and> js_sub (Exact t) (Exact (life_minutes_read s date))
               = Exact (t - life_minutes_read s date)
           \<and> ((\<forall>r\<in>set (getRecordsByDate s date). plain r) \<longrightarrow>
                 t = sum_list (map spec_duration (getRecordsByDate s date))
               \<and> life_minutes_read s date = spec_life_minutes s date)"
proof -
  let ?rs = "getRecordsByDate s date"
  let ?t = "sum_list (map minutes_read ?rs)"
  let ?l = "sum_list (map minutes_read (filter (\<lambda>r. rec_type r = type_life) ?rs))"
  let ?e = "sum_list (map minutes_read (filter (\<lambda>r. rec_type r \<noteq> type_life) ?rs))"
  have split: "?t = ?l + ?e"
    using sum_list_filter_split [of minutes_read ?rs "\<lambda>r. rec_type r = type_life"] by simp
  have bound: "sum_list (map (\<lambda>r. \<bar>minutes_read r\<bar>) ?rs) \<le> 2 ^ 53"
    using assms(2) by (simp add: within_safe_def)
  have t: "\<bar>?t\<bar> \<le> 2 ^ 53"
    using abs_sum_list_le [of minutes_read ?rs] bound by simp
  have "sum_list (map (\<lambda>r. \<bar>minutes_read r\<bar>) (filter (\<lambda>r. rec_type r = type_life) ?rs))
      \<le> sum_list (map (\<lambda>r. \<bar>minutes_read r\<bar>) ?rs)"
    by (rule sum_list_filter_le) simp
  with abs_sum_list_le [of minutes_read "filter (\<lambda>r. rec_type r = type_life) ?rs"] bound
  have l: "\<bar>?l\<bar> \<le> 2 ^ 53" by simp
  have "sum_list (map (\<lambda>r. \<bar>minutes_read r\<bar>) (filter (\<lambda>r. rec_type r \<noteq> type_life) ?rs))
      \<le> sum_list (map (\<lambda>r. \<bar>minutes_read r\<bar>) ?rs)"
    by (rule sum_list_filter_le) simp
  with abs_sum_list_le [of minutes_read "filter (\<lambda>r. rec_type r \<noteq> type_life) ?rs"] bound
  have e: "\<bar>?e\<bar> \<le> 2 ^ 53" by simp
  from t l e split have sub: "js_sub (Exact ?t) (Exact ?l) = Exact ?e"
    by (simp add: number_of_def)
  have p: "?t = sum_list (map spec_duration ?rs) \<and> ?l = spec_life_minutes s date"
    if "\<forall>r\<in>set ?rs. plain r"
  proof -
    from that have "?t = sum_list (map spec_duration ?rs)"
      by (intro arg_cong [where f = sum_list] map_cong) (simp_all add: plain_readable)
    moreover from that have "?l = spec_life_minutes s date"
      unfolding spec_life_minutes_def
      by (intro arg_cong [where f = sum_list] map_cong) (simp_all add: plain_readable)
    ultimately show ?thesis by blast
  qed
  have diff: "?e = ?t - ?l" using split by simp
  show ?thesis
  proof (intro exI [of _ ?t] conjI impI)
    show "getTotalTimeByDate s date = Inr (Exact ?t)"
      by (rule total_readable [OF assms])
    show "getWorkTimeExcludingLifeByDate s date
        = Inr (js_sub (Exact ?t) (Exact (life_minutes_read s date)))"
      unfolding life_minutes_read_def sub by (rule excluding_readable [OF assms])
    show "js_sub (Exact ?t) (Exact (life_minutes_read s date))
        = Exact (?t - life_minutes_read s date)"
      unfolding life_minutes_read_def sub diff ..
    show "?t = sum_list (map spec_duration ?rs)" if "\<forall>r\<in>set ?rs. plain r"
      using p [OF that] ..
    show "life_minutes_read s date = spec_life_minutes s date" if "\<forall>r\<in>set ?rs. plain r"
      unfolding life_minutes_read_def using p [OF that] ..
  qed
qed

theorem C6_witness:
  "list_all readable (getRecordsByDate stored_mixed ''2024-01-01'')
   \<and> within_safe (getRecordsByDate stored_mixed ''2024-01-01'')
   \<and> getTotalTimeByDate stored_mixed ''2024-01-01'' = Inr (Exact 75)
   \<and> life_minutes_read stored_mixed ''2024-01-01'' = 30
   \<and> getWorkTimeExcludingLifeByDate stored_mixed ''2024-01-01'' = Inr (Exact 45)"
proof -
  have r: "\<forall>r\<in>set (getRecordsByDate stored_mixed ''2024-01-01''). readable r"
    by code_simp
  have b: "within_safe (getRecordsByDate stored_mixed ''2024-01-01'')" by code_simp
  have t: "getTotalTimeByDate stored_mixed ''2024-01-01'' = Inr (Exact 75)" by code_simp
  have l: "life_minutes_read stored_mixed ''2024-01-01'' = 30" by code_simp
  from C6_excluding_is_total_minus_life [OF r b] t l
  have "getWorkTimeExcludingLifeByDate stored_mixed ''2024-01-01'' = Inr (Exact 45)" by auto
  with r b t l show ?thesis by (simp add: list_all_iff)
qed

text \<open>
  C7, as the claim states it, fails twice. A record whose duration is the string
  \<^verbatim>\<open>"abc"\<close> does not contribute zero: with it and an hour of work on the same day both
  sums are \<^verbatim>\<open>NaN\<close>, not the 60 minutes that counting it as zero gives. And the sums do
  raise: with a duration read from \<^verbatim>\<open>{"toString": 1}\<close> both throw a \<^verbatim>\<open>TypeError\<close>.
\<close>

theorem C7_counterexample:
  "getTotalTimeByDate stored_work_abc ''2024-01-01'' = Inr NaN
   \<and> getWorkTimeExcludingLifeByDate stored_work_abc ''2024-01-01'' = Inr NaN
   \<and> sum_list (map spec_duration (getRecordsByDate stored_work_abc ''2024-01-01'')) = 60
   \<and> getTotalTimeByDate stored_work_object ''2024-01-01'' = Inl TypeError
   \<and> getWorkTimeExcludingLifeByDate stored_work_object ''2024-01-01'' = Inl TypeError"
  by code_simp

lemma throwing_not_array: "\<not> is_array v \<Longrightarrow> throwing v = toString_object v"
  by (cases v) simp_all

text \<open>
  C7, amended. On every stored list of record objects:
  a record whose duration is missing (absent, \<^verbatim>\<open>null\<close>, \<^verbatim>\<open>false\<close>, \<open>0\<close> or the empty
  string) contributes zero to both daily sums;
  when no duration on the date is an array, a sum raises exactly when one of the durations
  it adds is an object with a key \<^verbatim>\<open>toString\<close> of its own, so neither sum raises when the
  durations are absent, \<^verbatim>\<open>null\<close>, booleans, numbers, strings or other objects;
  and when every duration on the date is missing or a safe integer and their absolute
  values add up to at most \<open>2\<^sup>5\<^sup>3\<close>, both sums are well-defined integers, the sums of
  the durations.
\<close>

theorem C7_missing_duration_counts_zero:
  "(\<not> truthy (rec_duration r) \<longrightarrow>
       add_duration (number_of x) r = Inr (number_of x)
     \<and> add_duration NaN r = Inr NaN
     \<and> plain r \<and> spec_duration r = 0)
   \<and> ((\<forall>r\<in>set (getRecordsByDate s date). \<not> is_array (rec_duration r)) \<longrightarrow>
        (getTotalTimeByDate s date = Inl TypeError)
          = (\<exists>r\<in>set (getRecordsByDate s date). toString_object (rec_duration r))
      \<and> (getWorkTimeExcludingLifeByDate s date = Inl TypeError)
          = (\<exists>r\<in>set (getRecordsByDate s date).
               rec_type r \<noteq> type_life \<and> toString_object (rec_duration r))
      \<and> ((\<forall>r\<in>set (getRecordsByDate s date). \<not> toString_object (rec_duration r)) \<longrightarrow>
            (\<exists>t. getTotalTimeByDate s date = Inr t)
          \<and> (\<exists>t. getWorkTimeExcludingLifeByDate s date = Inr t)))
   \<and> ((\<forall>r\<in>set (getRecordsByDate s date). plain r)
        \<and> sum_list (map (\<lambda>r. \<bar>spec_duration r\<bar>) (getRecordsByDate s date)) \<le> 2 ^ 53 \<longrightarrow>
        getTotalTimeByDate s date
          = Inr (Exact (sum_list (map spec_duration (getRecordsByDate s date))))
      \<and> getWorkTimeExcludingLifeByDate s date
          = Inr (Exact (sum_list (map spec_duration
                    (filter (\<lambda>r. rec_type r \<noteq> type_life) (getRecordsByDate s date))))))"
proof (intro conjI impI)
  let ?rs = "getRecordsByDate s date"
  {
    assume f: "\<not> truthy (rec_duration r)"
    show "add_duration (number_of x) r = Inr (number_of x)"
      using f by (simp add: add_duration_def falsy_reads_zero js_add_zero)
    show "add_duration NaN r = Inr NaN"
      using f by (simp add: add_duration_def falsy_reads_zero)
    show "plain r" using f by (cases "rec_duration r") (simp_all add: plain_def)
    show "spec_duration r = 0"
      using f by (cases "rec_duration r") (simp_all add: spec_duration_def)
  }
  {
    assume n: "\<forall>r\<in>set ?rs. \<not> is_array (rec_duration r)"
    then have th: "throwing (rec_duration r) = toString_object (rec_duration r)"
      if "r \<in> set ?rs" for r
      using that by (simp add: throwing_not_array)
    show t: "(getTotalTimeByDate s date = Inl TypeError)
        = (\<exists>r\<in>set ?rs. toString_object (rec_duration r))"
      using th by (auto simp: getTotalTimeByDate_def reduce_add_duration_throws)
    show e: "(getWorkTimeExcludingLifeByDate s date = Inl TypeError)
        = (\<exists>r\<in>set ?rs. rec_type r \<noteq> type_life \<and> toString_object (rec_duration r))"
      using th by (auto simp: getWorkTimeExcludingLifeByDate_def reduce_add_duration_throws)
    assume p: "\<forall>r\<in>set ?rs. \<not> toString_object (rec_duration r)"
    with t e have nt: "getTotalTimeByDate s date \<noteq> Inl TypeError"
      and ne: "getWorkTimeExcludingLifeByDate s date \<noteq> Inl TypeError"
      by auto
    from nt show "\<exists>t. getTotalTimeByDate s date = Inr t"
      by (cases "getTotalTimeByDate s date") (simp_all add: only_TypeError)
    from ne show "\<exists>t. getWorkTimeExcludingLifeByDate s date = Inr t"
      by (cases "getWorkTimeExcludingLifeByDate s date") (simp_all add: only_TypeError)
  }
  {
    assume a: "(\<forall>r\<in>set ?rs. plain r)
        \<and> sum_list (map (\<lambda>r. \<bar>spec_duration r\<bar>) ?rs) \<le> 2 ^ 53"
    then have r: "\<forall>r\<in>set ?rs. readable r" by (simp add: plain_readable)
    from a have "map (\<lambda>r. \<bar>minutes_read r\<bar>) ?rs = map (\<lambda>r. \<bar>spec_duration r\<bar>) ?rs"
      by (intro map_cong) (simp_all add: plain_readable)
    with a have b: "within_safe ?rs" unfolding within_safe_def by (simp only:)
    from a have m: "sum_list (map minutes_read ?rs) = sum_list (map spec_duration ?rs)"
      by (intro arg_cong [where f = sum_list] map_cong) (simp_all add: plain_readable)
    from a have n: "sum_list (map minutes_read (filter (\<lambda>r. rec_type r \<noteq> type_life) ?rs))
        = sum_list (map spec_duration (filter (\<lambda>r. rec_type r \<noteq> type_life) ?rs))"
      by (intro arg_cong [where f = sum_list] map_cong) (simp_all add: plain_readable)
    show "getTotalTimeByDate s date = Inr (Exact (sum_list (map spec_duration ?rs)))"
      using total_readable [OF r b] unfolding m .
    show "getWorkTimeExcludingLifeByDate s date
        = Inr (Exact (sum_list (map spec_duration (filter (\<lambda>r. rec_type r \<noteq> type_life) ?rs))))"
      using excluding_readable [OF r b] unfolding n .
  }
qed

theorem C7_witness:
  "\<not> truthy (rec_duration (example_record 2 type_work JUndefined))
   \<and> add_duration (Exact 30) (example_record 2 type_work JUndefined) = Inr (Exact 30)
   \<and> list_all plain (getRecordsByDate stored_plain ''2024-01-01'')
   \<and> getTotalTimeByDate stored_plain ''2024-01-01'' = Inr (Exact 75)
   \<and> getWorkTimeExcludingLifeByDate stored_plain ''2024-01-01'' = Inr (Exact 45)
   \<and> list_all (\<lambda>r. \<not> is_array (rec_duration r) \<and> \<not> toString_object (rec_duration r))
        (getRecordsByDate stored_work_abc ''2024-01-01'')
   \<and> getTotalTimeByDate stored_work_abc ''2024-01-01'' \<noteq> Inl TypeError"
proof -
  let ?u = "example_record 2 type_work JUndefined"
  have u: "\<not> truthy (rec_duration ?u)"
    by (simp add: example_record_def)
  have p: "\<forall>r\<in>set (getRecordsByDate stored_plain ''2024-01-01''). plain r"
    by code_simp
  have b: "sum_list (map (\<lambda>r. \<bar>spec_duration r\<bar>) (getRecordsByDate stored_plain ''2024-01-01''))
      \<le> 2 ^ 53"
    by code_simp
  have m: "sum_list (map spec_duration (getRecordsByDate stored_plain ''2024-01-01'')) = 75"
    by code_simp
  have e: "sum_list (map spec_duration (filter (\<lambda>r. rec_type r \<noteq> type_life)
      (getRecordsByDate stored_plain ''2024-01-01''))) = 45"
    by code_simp
  have o: "list_all (\<lambda>r. \<not> is_array (rec_duration r) \<and> \<not> toString_object (rec_duration r))
      (getRecordsByDate stored_work_abc ''2024-01-01'')"
    by code_simp
  then have n: "\<forall>r\<in>set (getRecordsByDate stored_work_abc ''2024-01-01'').
      \<not> is_array (rec_duration r)"
    and n': "\<not> (\<exists>r\<in>set (getRecordsByDate stored_work_abc ''2024-01-01'').
      toString_object (rec_duration r))"
    by (simp_all add: list_all_iff)
  have z: "number_of 30 = Exact 30" by (simp add: number_of_def)
  note c = C7_missing_duration_counts_zero [of ?u 30 stored_plain "''2024-01-01''"]
  note d = C7_missing_duration_counts_zero [of ?u 30 stored_work_abc "''2024-01-01''"]
  from c u z have "add_duration (Exact 30) ?u = Inr (Exact 30)" by auto
  moreover from c p b m e have "getTotalTimeByDate stored_plain ''2024-01-01'' = Inr (Exact 75)"
    and "getWorkTimeExcludingLifeByDate stored_plain ''2024-01-01'' = Inr (Exact 45)"
    by simp_all
  moreover from d n n' have "getTotalTimeByDate stored_work_abc ''2024-01-01'' \<noteq> Inl TypeError"
    by blast
  ultimately show ?thesis using u p o by (simp add: list_all_iff)
qed


section \<open>The category list\<close>

lemma splice_one_nonempty: "1 < length xs \<Longrightarrow> splice_one index xs \<noteq> []"
  by (auto simp: splice_one_def Let_def)

lemma saveSettings_categories:
  assumes "workTypes_or_empty (currentSettings (sm p)) \<noteq> []"
    and "\<forall>st. ls_settings (storage p) = Some st \<longrightarrow> workTypes_or_empty st \<noteq> []"
  shows "categories_ok (SettingsManager_saveSettings p)"
  using assms
  by (simp add: categories_ok_def SettingsManager_saveSettings_def showStatusMessage_def
      saveSettings_def workTypes_or_empty_def Let_def)

lemma deleteWorkType_categories:
  assumes "categories_ok p"
  shows "categories_ok (SettingsManager_deleteWorkType index p)"
proof (cases "length (workTypes_or_empty (currentSettings (sm p))) \<le> 1")
  case True
  with assms show ?thesis
    by (simp add: SettingsManager_deleteWorkType_def showStatusMessage_def categories_ok_def)
next
  case False
  then have "splice_one index (workTypes_or_empty (currentSettings (sm p))) \<noteq> []"
    by (intro splice_one_nonempty) simp
  with False assms show ?thesis
    by (simp add: SettingsManager_deleteWorkType_def Let_def)
      (rule saveSettings_categories, simp_all add: categories_ok_def workTypes_or_empty_def)
qed

lemma addWorkType_categories:
  assumes "categories_ok p"
  shows "categories_ok (SettingsManager_addWorkType p)"
proof -
  let ?ws = "workTypes_or_empty (currentSettings (sm p))"
  let ?t = "trim (newWorkTypeInput (sm p))"
  consider "?t = []" | "?t \<noteq> []" "?t \<in> set ?ws" | "?t \<noteq> []" "?t \<notin> set ?ws" by blast
  then show ?thesis
  proof cases
    case 1
    with assms show ?thesis by (simp add: SettingsManager_addWorkType_def)
  next
    case 2
    with assms show ?thesis
      by (simp add: SettingsManager_addWorkType_def showStatusMessage_def categories_ok_def)
  next
    case 3
    with assms show ?thesis
      by (simp add: SettingsManager_addWorkType_def Let_def)
        (rule saveSettings_categories, simp_all add: categories_ok_def workTypes_or_empty_def)
  qed
qed

lemma apply_category_op_categories:
  assumes "categories_ok p"
  shows "categories_ok (apply_category_op op p)"
proof (cases op)
  case (Type_and_add text')
  from assms have "categories_ok (p\<lparr>sm := (sm p)\<lparr>newWorkTypeInput := text'\<rparr>\<rparr>)"
    by (simp add: categories_ok_def)
  with Type_and_add show ?thesis by (simp add: addWorkType_categories)
next
  case (Delete index)
  with assms show ?thesis by (simp add: deleteWorkType_categories)
qed

lemma apply_category_ops_categories:
  "categories_ok p \<Longrightarrow> categories_ok (apply_category_ops ops p)"
  unfolding apply_category_ops_def
  by (induction ops arbitrary: p) (simp_all add: apply_category_op_categories)

lemma open_options_defaults: "categories_ok (open_options (init empty_storage))"
  by (simp add: categories_ok_def open_options_def loadSettings_def init_def empty_storage_def
      saveSettings_def saveRecords_def getSettings_def defaultSettings_def
      workTypes_or_empty_def Let_def)

text \<open>
  C8. The category list is never emptied. Deleting when at most one category remains is
  refused: the error text is shown and the settings, the storage and the messages sent
  stay as they are. Every sequence of additions and deletions keeps a non-empty list
  non-empty, in memory and in the store; so the list is non-empty in every state reached
  from the page opened over the defaults of \<^verbatim>\<open>StorageManager.init()\<close>.
\<close>

theorem C8_workTypes_never_empty:
  "(length (workTypes_or_empty (currentSettings (sm p))) \<le> 1 \<longrightarrow>
       SettingsManager_deleteWorkType index p
         = p\<lparr>sm := (sm p)\<lparr>statusMessage := Some (msg_keep_one_type, ''error'')\<rparr>\<rparr>)
   \<and> (categories_ok p \<longrightarrow>
         categories_ok (SettingsManager_addWorkType p)
       \<and> categories_ok (SettingsManager_deleteWorkType index p)
       \<and> categories_ok (apply_category_ops ops p))
   \<and> categories_ok (apply_category_ops ops (open_options (init empty_storage)))"
  using apply_category_ops_categories [OF open_options_defaults, of ops]
  by (simp add: addWorkType_categories deleteWorkType_categories apply_category_ops_categories)
    (simp add: SettingsManager_deleteWorkType_def showStatusMessage_def)

theorem C8_witness:
  "workTypes (currentSettings (sm (apply_category_ops [Delete 0, Delete 0, Delete 0]
       (open_options (init empty_storage))))) = Some [type_study]
   \<and> workTypes (currentSettings (sm (apply_category_ops [Delete 0, Delete 0, Delete 0, Delete 0]
       (open_options (init empty_storage))))) = Some [type_study]
   \<and> statusMessage (sm (SettingsManager_deleteWorkType 0
       (apply_category_ops [Delete 0, Delete 0, Delete 0] (open_options (init empty_storage)))))
     = Some (msg_keep_one_type, ''error'')
   \<and> categories_ok (apply_category_ops [Delete 0, Delete 0, Delete 0, Delete 0, Type_and_add '' a '']
       (open_options (init empty_storage)))"
proof -
  let ?p = "apply_category_ops [Delete 0, Delete 0, Delete 0] (open_options (init empty_storage))"
  have w: "workTypes (currentSettings (sm ?p)) = Some [type_study]" by code_simp
  then have one: "length (workTypes_or_empty (currentSettings (sm ?p))) \<le> 1"
    by (simp add: workTypes_or_empty_def)
  note c = C8_workTypes_never_empty [of ?p 0]
  from c one have d: "SettingsManager_deleteWorkType 0 ?p
      = ?p\<lparr>sm := (sm ?p)\<lparr>statusMessage := Some (msg_keep_one_type, ''error'')\<rparr>\<rparr>"
    by blast
  have "apply_category_ops [Delete 0, Delete 0, Delete 0, Delete 0] (open_options (init empty_storage))
      = SettingsManager_deleteWorkType 0 ?p"
    by (simp add: apply_category_ops_def)
  with d w have "workTypes (currentSettings (sm (apply_category_ops
      [Delete 0, Delete 0, Delete 0, Delete 0] (open_options (init empty_storage)))))
      = Some [type_study]"
    by simp
  moreover from d have "statusMessage (sm (SettingsManager_deleteWorkType 0 ?p))
      = Some (msg_keep_one_type, ''error'')"
    by simp
  moreover from C8_workTypes_never_empty
  have "categories_ok (apply_category_ops
      [Delete 0, Delete 0, Delete 0, Delete 0, Type_and_add '' a ''] (open_options (init empty_storage)))"
    by blast
  ultimately show ?thesis using w by simp
qed

section \<open>The popup and its runs\<close>

subsection \<open>The invariant is kept by every event\<close>

lemma snap_ok_mono: "snap_ok T t \<Longrightarrow> T \<le> T' \<Longrightarrow> snap_ok T' t"
  by (auto simp: snap_ok_def)

lemma authority_ok_mono: "authority_ok T a \<Longrightarrow> T \<le> T' \<Longrightarrow> authority_ok T' a"
  unfolding authority_ok_def by (meson snap_ok_mono)

lemma popup_ok_mono: "popup_ok T m \<Longrightarrow> T \<le> T' \<Longrightarrow> popup_ok T' m"
  unfolding popup_ok_def by (meson order_trans)

lemma storage_ok_mono: "storage_ok T s \<Longrightarrow> T \<le> T' \<Longrightarrow> storage_ok T' s"
  unfolding storage_ok_def by (meson snap_ok_mono)

lemma consistent_mono: "consistent T w \<Longrightarrow> T \<le> T' \<Longrightarrow> consistent T' w"
  unfolding consistent_def by (meson authority_ok_mono popup_ok_mono storage_ok_mono)

lemma startTimer_ok:
  "data_startTime d \<le> now \<Longrightarrow> 0 \<le> data_elapsedTime d \<Longrightarrow> authority_ok now (startTimer now d a)"
  by (simp add: authority_ok_def startTimer_def chrome_set_def snap_ok_def num_or_def)

lemma tick_ok: "authority_ok now a \<Longrightarrow> authority_ok now (tick now a)"
  by (auto simp: authority_ok_def tick_def chrome_set_def snap_ok_def)

lemma pauseTimer_ok: "authority_ok now a \<Longrightarrow> authority_ok now (pauseTimer now a)"
  by (auto simp: authority_ok_def pauseTimer_def chrome_set_def snap_ok_def Let_def)

lemma clearTimer_ok: "authority_ok now (clearTimer now a)"
  by (auto simp: authority_ok_def clearTimer_def pauseTimer_def chrome_set_def chrome_remove_def
      snap_ok_def Let_def initial_timerState_def)

lemma fresh_authority_ok:
  "authority_ok now a \<Longrightarrow> authority_ok now (fresh_authority (chrome_currentTimer a))"
  by (auto simp: authority_ok_def fresh_authority_def snap_ok_def initial_timerState_def)

lemma getTimerStatus_ok:
  assumes "authority_ok now a"
  shows "authority_ok now (snd (getTimerStatus now a))"
    and "snap_ok now (fst (getTimerStatus now a))"
  using assms
  by (auto simp: authority_ok_def getTimerStatus_def startTimer_def chrome_set_def snap_ok_def
      num_or_def Let_def split: option.splits)


lemma round_minutes_nonneg: "0 \<le> ms \<Longrightarrow> 0 \<le> round_minutes ms"
  by (simp add: round_minutes_def)

lemma updateTimerDisplay_eq:
  "TimerManager_updateTimerDisplay now w =
     (if this_isRunning (tm w)
      then w\<lparr>bg := snd (getTimerStatus now (bg w)),
             tm := (if isRunning (fst (getTimerStatus now (bg w)))
                    then (tm w)\<lparr>this_elapsedTime := now - startTime (fst (getTimerStatus now (bg w)))\<rparr>
                    else tm w)\<rparr>
      else w)"
  by (simp add: TimerManager_updateTimerDisplay_def sendMessage_def onMessage_def split: prod.splits)

lemma updateTimerDisplay_ok:
  assumes "consistent now w"
  shows "consistent now (TimerManager_updateTimerDisplay now w)"
proof -
  have a: "authority_ok now (bg w)" using assms by (simp add: consistent_def)
  note g = getTimerStatus_ok [OF a]
  from g(2) have "isRunning (fst (getTimerStatus now (bg w)))
      \<Longrightarrow> 0 \<le> now - startTime (fst (getTimerStatus now (bg w)))"
    by (simp add: snap_ok_def)
  with assms g(1) show ?thesis
    by (simp add: updateTimerDisplay_eq consistent_def popup_ok_def)
qed

lemma saveCurrentTimer_ok:
  "storage_ok T s \<Longrightarrow> snap_ok T t \<Longrightarrow> storage_ok T (snd (saveCurrentTimer t s))"
  by (simp add: storage_ok_def saveCurrentTimer_def getRecords_def)

lemma clearCurrentTimer_ok: "storage_ok T s \<Longrightarrow> storage_ok T (snd (clearCurrentTimer s))"
  by (simp add: storage_ok_def clearCurrentTimer_def getRecords_def)

lemma addRecord_ok:
  "storage_ok T s \<Longrightarrow> rec_duration r = JNum n \<Longrightarrow> 0 \<le> n \<Longrightarrow> storage_ok T (snd (addRecord now r s))"
  by (auto simp: storage_ok_def addRecord_def saveRecords_def getRecords_def split: option.splits)

lemma init_ok: "storage_ok T s \<Longrightarrow> storage_ok T (init s)"
  by (auto simp: storage_ok_def init_def saveSettings_def saveRecords_def getRecords_def Let_def)

lemma TimerManager_startTimer_ok:
  assumes "consistent now w"
  shows "consistent now (TimerManager_startTimer now w)"
proof (cases "this_isRunning (tm w)")
  case True
  with assms show ?thesis by (simp add: TimerManager_startTimer_def)
next
  case False
  from assms have e: "0 \<le> this_elapsedTime (tm w)" and s: "storage_ok now (ls w)"
    by (simp_all add: consistent_def popup_ok_def)
  let ?d = "\<lparr>data_startTime = now - this_elapsedTime (tm w), data_elapsedTime = this_elapsedTime (tm w)\<rparr>"
  have b: "authority_ok now (startTimer now ?d (bg w))"
    using e by (intro startTimer_ok) simp_all
  have l: "storage_ok now (snd (saveCurrentTimer
      \<lparr>isRunning = True, startTime = now - this_elapsedTime (tm w), elapsedTime = this_elapsedTime (tm w)\<rparr> (ls w)))"
    using s e by (intro saveCurrentTimer_ok) (simp_all add: snap_ok_def)
  from False e b l show ?thesis
    by (simp add: TimerManager_startTimer_def sendMessage_def onMessage_def Let_def consistent_def popup_ok_def)
qed

lemma TimerManager_pauseTimer_ok:
  assumes "consistent now w"
  shows "consistent now (TimerManager_pauseTimer now w)"
proof (cases "this_isRunning (tm w)")
  case False
  with assms show ?thesis by (simp add: TimerManager_pauseTimer_def)
next
  case True
  from assms True obtain s where st: "this_startTime (tm w) = Some s" and le: "s \<le> now"
    by (auto simp: consistent_def popup_ok_def)
  from assms have b: "authority_ok now (pauseTimer now (bg w))"
    by (simp add: consistent_def pauseTimer_ok)
  have l: "storage_ok now (snd (saveCurrentTimer
      \<lparr>isRunning = False, startTime = s, elapsedTime = now - s\<rparr> (ls w)))"
    using assms le by (intro saveCurrentTimer_ok) (simp_all add: snap_ok_def consistent_def)
  from True st le b l show ?thesis
    by (simp add: TimerManager_pauseTimer_def sendMessage_def onMessage_def Let_def consistent_def
        popup_ok_def to_number_def)
qed

lemma TimerManager_endTimer_ok:
  assumes "consistent now w"
  shows "consistent now (case TimerManager_endTimer tz now w of Inr w' \<Rightarrow> w' | Inl _ \<Rightarrow> w)"
proof (cases "to_number (this_startTime (tm w)) = 0")
  case True
  with assms show ?thesis by (simp add: TimerManager_endTimer_def)
next
  case False
  then obtain s where st: "this_startTime (tm w) = Some s" and nz: "s \<noteq> 0"
    by (auto simp: to_number_def split: option.splits)
  from assms st have le: "s \<le> now" and e: "0 \<le> this_elapsedTime (tm w)"
    by (simp_all add: consistent_def popup_ok_def)
  have d: "0 \<le> round_minutes (num_or (this_elapsedTime (tm w)) (now - s))"
    using le e by (intro round_minutes_nonneg) (simp add: num_or_def)
  have l: "storage_ok now (snd (clearCurrentTimer (snd (addRecord now
      \<lparr>rec_id = 0, rec_date = this_currentDate (tm w), rec_startTime = formatTime tz s,
       rec_endTime = formatTime tz now,
       rec_duration = JNum (round_minutes (num_or (this_elapsedTime (tm w)) (now - s))),
       rec_content = content_timed_work, rec_type = workTypeSelect_value (tm w)\<rparr> (ls w)))))"
    using assms d by (intro clearCurrentTimer_ok addRecord_ok [where n = "round_minutes (num_or (this_elapsedTime (tm w)) (now - s))"])
      (simp_all add: consistent_def)
  from st nz l show ?thesis
    by (simp add: TimerManager_endTimer_def TimerManager_resetTimer_def updateTimerDisplay_eq
        sendMessage_def onMessage_def Let_def consistent_def popup_ok_def to_number_def clearTimer_ok)
qed


lemma sendMessage_status:
  "sendMessage now GET_TIMER_STATUS w =
     (Timer (fst (getTimerStatus now (bg w))), w\<lparr>bg := snd (getTimerStatus now (bg w))\<rparr>)"
  by (simp add: sendMessage_def onMessage_def split: prod.splits)

lemma sendMessage_start:
  "snd (sendMessage now (START_TIMER d) w) = w\<lparr>bg := startTimer now d (bg w)\<rparr>"
  by (simp add: sendMessage_def onMessage_def)

lemma TimerManager_loadTimerState_ok:
  assumes "consistent now w"
  shows "consistent now (TimerManager_loadTimerState now w)"
proof -
  let ?r = "fst (getTimerStatus now (bg w))"
  let ?w1 = "w\<lparr>bg := snd (getTimerStatus now (bg w))\<rparr>"
  have a: "authority_ok now (bg w)" using assms by (simp add: consistent_def)
  note g = getTimerStatus_ok [OF a]
  have w1: "consistent now ?w1" using assms g(1) by (simp add: consistent_def)
  show ?thesis
  proof (cases "isRunning ?r")
    case True
    let ?w2 = "?w1\<lparr>tm := (tm ?w1)\<lparr>this_isRunning := True, this_startTime := Some (startTime ?r),
                                    this_elapsedTime := elapsedTime ?r\<rparr>\<rparr>"
    have "consistent now ?w2"
      using w1 g(2) True by (simp add: consistent_def popup_ok_def snap_ok_def)
    then have "consistent now (TimerManager_updateTimerDisplay now ?w2)"
      by (rule updateTimerDisplay_ok)
    then have "consistent now ((TimerManager_updateTimerDisplay now ?w2)
        \<lparr>tm := (tm (TimerManager_updateTimerDisplay now ?w2))\<lparr>this_timerInterval := True\<rparr>\<rparr>)"
      by (simp add: consistent_def popup_ok_def)
    with True show ?thesis
      by (simp add: TimerManager_loadTimerState_def sendMessage_status Let_def)
  next
    case False
    show ?thesis
    proof (cases "getCurrentTimer (ls w)")
      case None
      with False w1 show ?thesis
        by (simp add: TimerManager_loadTimerState_def sendMessage_status Let_def)
    next
      case (Some t)
      show ?thesis
      proof (cases "isRunning t")
        case nr: False
        with False Some w1 show ?thesis
          by (simp add: TimerManager_loadTimerState_def sendMessage_status Let_def)
      next
        case True
        from assms Some have t: "snap_ok now t"
          by (simp add: consistent_def storage_ok_def getCurrentTimer_def)
        let ?w2 = "?w1\<lparr>tm := (tm ?w1)\<lparr>this_isRunning := True, this_startTime := Some (startTime t),
                                        this_elapsedTime := elapsedTime t\<rparr>\<rparr>"
        let ?w3 = "TimerManager_updateTimerDisplay now ?w2"
        have "consistent now ?w2"
          using w1 t True by (simp add: consistent_def popup_ok_def snap_ok_def)
        then have w3: "consistent now ?w3"
          by (rule updateTimerDisplay_ok)
        then obtain s where s: "this_startTime (tm ?w3) = Some s" "s \<le> now"
          and e: "0 \<le> this_elapsedTime (tm ?w3)"
          by (auto simp: updateTimerDisplay_eq consistent_def popup_ok_def split: if_splits)
        let ?d = "\<lparr>data_startTime = to_number (this_startTime (tm ?w3)),
                  data_elapsedTime = this_elapsedTime (tm ?w3)\<rparr>"
        have b: "authority_ok now (startTimer now ?d (bg ?w3))"
          using s e by (intro startTimer_ok) (simp_all add: to_number_def)
        have "consistent now ((?w3\<lparr>bg := startTimer now ?d (bg ?w3)\<rparr>)
            \<lparr>tm := (tm ?w3)\<lparr>this_timerInterval := True\<rparr>\<rparr>)"
          using w3 b by (simp add: consistent_def popup_ok_def)
        with False Some True show ?thesis
          by (simp add: TimerManager_loadTimerState_def sendMessage_status sendMessage_start Let_def)
      qed
    qed
  qed
qed

lemma TimerManager_new_ok:
  assumes "consistent now w"
  shows "consistent now (TimerManager_new today now w)"
proof -
  let ?w0 = "w\<lparr>tm := \<lparr>this_timerInterval = False, this_isRunning = False, this_startTime = None,
                     this_elapsedTime = 0, this_currentDate = today, workTypeSelect_value = []\<rparr>\<rparr>"
  have "consistent now ?w0" using assms by (simp add: consistent_def popup_ok_def)
  then have "consistent now (TimerManager_loadTimerState now ?w0)"
    by (rule TimerManager_loadTimerState_ok)
  then show ?thesis
    by (simp add: TimerManager_new_def TimerManager_loadWorkTypes_def consistent_def popup_ok_def Let_def)
qed

lemma step_ok:
  assumes "consistent now w"
  shows "consistent now (step tz now e w)"
proof (cases e)
  case Start then show ?thesis using assms by (simp add: step_def TimerManager_startTimer_ok)
next
  case Pause then show ?thesis using assms by (simp add: step_def TimerManager_pauseTimer_ok)
next
  case Resume then show ?thesis using assms
    by (simp add: step_def TimerManager_resumeTimer_def TimerManager_startTimer_ok)
next
  case Stop then show ?thesis using TimerManager_endTimer_ok [OF assms, of tz] by (simp add: step_def)
next
  case (Select t) then show ?thesis using assms by (simp add: step_def consistent_def popup_ok_def)
next
  case Refresh then show ?thesis using assms by (simp add: step_def updateTimerDisplay_ok)
next
  case Tick then show ?thesis using assms by (simp add: step_def consistent_def tick_ok)
next
  case (Reopen today)
  from assms have "consistent now (w\<lparr>ls := init (ls w)\<rparr>)"
    by (simp add: consistent_def init_ok)
  with Reopen show ?thesis by (simp add: step_def TimerManager_new_ok)
next
  case Restart then show ?thesis using assms by (simp add: step_def consistent_def fresh_authority_ok)
qed

lemma run_ok:
  "consistent T w \<Longrightarrow> sorted (T # map fst es) \<Longrightarrow> \<exists>T'. consistent T' (run tz es w)"
proof (induction es arbitrary: T w)
  case Nil
  then show ?case by auto
next
  case (Cons p es)
  obtain now e where p: "p = (now, e)" by (cases p)
  from Cons.prems p have "T \<le> now" and srt: "sorted (now # map fst es)" by simp_all
  with Cons.prems(1) have "consistent now w" by (blast intro: consistent_mono)
  then have "consistent now (step tz now e w)" by (rule step_ok)
  from Cons.IH [OF this srt] p show ?case by simp
qed

lemma installed_eq:
  "installed today t0 =
     \<lparr>tm = \<lparr>this_timerInterval = False, this_isRunning = False, this_startTime = None,
            this_elapsedTime = 0, this_currentDate = today, workTypeSelect_value = type_work\<rparr>,
      bg = fresh_authority None,
      ls = init empty_storage\<rparr>"
  by (simp add: installed_def TimerManager_new_def TimerManager_loadTimerState_def
      TimerManager_loadWorkTypes_def sendMessage_def onMessage_def getTimerStatus_def
      fresh_authority_def getCurrentTimer_def init_def empty_storage_def saveSettings_def
      saveRecords_def getSettings_def defaultSettings_def initial_timerState_def Let_def)

lemma installed_ok: "consistent T (installed today t0)"
  by (simp add: installed_eq consistent_def popup_ok_def authority_ok_def storage_ok_def
      fresh_authority_def snap_ok_def initial_timerState_def init_def empty_storage_def
      saveSettings_def saveRecords_def getRecords_def Let_def)


lemma runs_nonnegative:
  assumes "sorted (map fst es)"
  shows "\<forall>r\<in>set (getRecords (ls (run tz es (installed today t0)))).
           \<exists>n. rec_duration r = JNum n \<and> 0 \<le> n"
proof -
  have "\<exists>T. sorted (T # map fst es)"
  proof (cases es)
    case Nil
    then show ?thesis by simp
  next
    case (Cons p ps)
    with assms have "sorted (fst p # map fst es)" by simp
    then show ?thesis ..
  qed
  then obtain T where "sorted (T # map fst es)" ..
  from run_ok [OF installed_ok this]
  obtain T' where "consistent T' (run tz es (installed today t0))" ..
  then show ?thesis by (simp add: consistent_def storage_ok_def)
qed

subsection \<open>Stopping the timer\<close>

lemma endTimer_record:
  assumes "this_startTime (tm w) = Some s" and "s \<noteq> 0" and "ls_setItem_ok (ls w)"
  shows "\<exists>w' r. TimerManager_endTimer tz T1 w = Inr w'
          \<and> getRecords (ls w') = getRecords (ls w) @ [r]
          \<and> rec_duration r = JNum (round_minutes (num_or (this_elapsedTime (tm w)) (T1 - s)))"
  using assms
  by (simp add: TimerManager_endTimer_def TimerManager_resetTimer_def updateTimerDisplay_eq
      sendMessage_def onMessage_def Let_def to_number_def addRecord_def saveRecords_def
      clearCurrentTimer_def getRecords_def)

lemma started_world:
  "T0 \<noteq> 0 \<Longrightarrow>
   step tz T0 Start (installed today t0) =
     \<lparr>tm = \<lparr>this_timerInterval = True, this_isRunning = True, this_startTime = Some T0,
            this_elapsedTime = 0, this_currentDate = today, workTypeSelect_value = type_work\<rparr>,
      bg = \<lparr>timerInterval = True,
            timerState = \<lparr>isRunning = True, startTime = T0, elapsedTime = 0\<rparr>,
            chrome_currentTimer = Some \<lparr>isRunning = True, startTime = T0, elapsedTime = 0\<rparr>,
            chrome_writes = 1\<rparr>,
      ls = (init empty_storage)
             \<lparr>ls_currentTimer := Some \<lparr>isRunning = True, startTime = T0, elapsedTime = 0\<rparr>,
              ls_writes := 3\<rparr>\<rparr>"
  by (simp add: step_def installed_eq TimerManager_startTimer_def sendMessage_def onMessage_def
      startTimer_def chrome_set_def fresh_authority_def num_or_def saveCurrentTimer_def init_def
      empty_storage_def saveSettings_def saveRecords_def Let_def)

lemma start_then_stop:
  assumes "T0 \<noteq> 0"
  shows "map rec_duration
           (getRecords (ls (run tz [(T0, Start), (T1, Stop)] (installed today t0))))
       = [JNum (round_minutes (T1 - T0))]"
  using assms
  by (simp add: started_world)
    (simp add: step_def TimerManager_endTimer_def TimerManager_resetTimer_def
      updateTimerDisplay_eq sendMessage_def onMessage_def Let_def to_number_def addRecord_def
      saveRecords_def clearCurrentTimer_def getRecords_def num_or_def init_def empty_storage_def
      saveSettings_def)

lemma start_refresh_stop:
  assumes "T0 \<noteq> 0" and "T \<noteq> T0"
  shows "map rec_duration
           (getRecords (ls (run tz [(T0, Start), (T, Refresh), (T1, Stop)] (installed today t0))))
       = [JNum (round_minutes (T - T0))]"
  using assms
  by (simp add: started_world)
    (simp add: step_def TimerManager_endTimer_def TimerManager_resetTimer_def
      updateTimerDisplay_eq sendMessage_def onMessage_def Let_def to_number_def addRecord_def
      saveRecords_def clearCurrentTimer_def getRecords_def num_or_def init_def empty_storage_def
      saveSettings_def getTimerStatus_def)

text \<open>
  C2, as the claim states it, fails: the timer is started one minute past the epoch, the
  display is last refreshed 29.004 seconds later and the timer is stopped 30.001 seconds
  after the start, with no pause. The record's duration is 0 minutes, from the 29004
  milliseconds of the refresh, while rounding the 30001 milliseconds between start and
  stop gives 1. And when the system clock is set back by two minutes between a start and
  the stop one minute later, the duration is negative.
\<close>

theorem C2_counterexample:
  "map rec_duration
     (getRecords (ls (run 0 [(60000, Start), (89004, Refresh), (90001, Stop)]
        (installed ''2024-01-01'' 1000))))
     = [JNum 0]
   \<and> round_minutes (90001 - 60000) = 1
   \<and> map rec_duration
     (getRecords (ls (run 0 [(120000, Start), (60000, Stop)] (installed ''2024-01-01'' 1000))))
     = [JNum (- 1)]"
  by code_simp

text \<open>
  C2, amended. Stopping a started timer commits a record whose duration is
  \<open>round (e / 60000)\<close> minutes, where \<open>e\<close> is the popup's elapsed time when that is not
  zero (the value of the last display refresh or of the pause) and otherwise the time from
  the start time to the stop. So a start at \<open>T0\<close> and a stop at \<open>T1\<close> with nothing in
  between give \<open>round ((T1 - T0) / 60000)\<close>, and with a display refresh at \<open>T\<close>
  in between they give \<open>round ((T - T0) / 60000)\<close>. In every run from the installed
  state whose clock readings never decrease, every committed record has a duration that
  is a number and not negative.
\<close>

theorem C2_stop_duration:
  "(this_startTime (tm w) = Some s \<and> s \<noteq> 0 \<and> ls_setItem_ok (ls w) \<longrightarrow>
      (\<exists>w' r. TimerManager_endTimer tz T1 w = Inr w'
         \<and> getRecords (ls w') = getRecords (ls w) @ [r]
         \<and> rec_duration r = JNum (round_minutes (num_or (this_elapsedTime (tm w)) (T1 - s)))))
   \<and> (T0 \<noteq> 0 \<longrightarrow>
        map rec_duration
          (getRecords (ls (run tz [(T0, Start), (T1, Stop)] (installed today t0))))
        = [JNum (round_minutes (T1 - T0))])
   \<and> (T0 \<noteq> 0 \<and> T \<noteq> T0 \<longrightarrow>
        map rec_duration
          (getRecords (ls (run tz [(T0, Start), (T, Refresh), (T1, Stop)] (installed today t0))))
        = [JNum (round_minutes (T - T0))])
   \<and> (sorted (map fst es) \<longrightarrow>
        (\<forall>r\<in>set (getRecords (ls (run tz es (installed today t0)))).
           \<exists>n. rec_duration r = JNum n \<and> 0 \<le> n))"
  using endTimer_record [of w s tz T1] start_then_stop [of T0 tz T1 today t0]
    start_refresh_stop [of T0 T tz T1 today t0] runs_nonnegative [of es tz today t0]
  by blast

theorem C2_witness:
  "map rec_duration
     (getRecords (ls (run 0 [(60000, Start), (150000, Stop)] (installed ''2024-01-01'' 1000))))
     = [JNum 2]
   \<and> map rec_duration
     (getRecords (ls (run 0 [(60000, Start), (149000, Refresh), (150000, Stop)]
        (installed ''2024-01-01'' 1000))))
     = [JNum 1]
   \<and> sorted (map fst [(60000 :: int, Start), (90000, Pause), (95000, Restart),
        (99000, Reopen ''2024-01-01''), (100000, Resume), (160000, Refresh), (200000, Stop)])
   \<and> list_all (\<lambda>r. \<exists>n. rec_duration r = JNum n \<and> 0 \<le> n)
        (getRecords (ls (run 0 [(60000, Start), (90000, Pause), (95000, Restart),
           (99000, Reopen ''2024-01-01''), (100000, Resume), (160000, Refresh), (200000, Stop)]
           (installed ''2024-01-01'' 1000))))"
proof -
  let ?es = "[(60000 :: int, Start), (90000, Pause), (95000, Restart),
    (99000, Reopen ''2024-01-01''), (100000, Resume), (160000, Refresh), (200000, Stop)]"
  note c = C2_stop_duration [of _ _ 0 150000 60000 "''2024-01-01''" 1000 149000 ?es]
  have z: "(60000 :: int) \<noteq> 0" and d: "(149000 :: int) \<noteq> 60000" by simp_all
  have s: "sorted (map fst ?es)" by simp
  from c z have "map rec_duration
      (getRecords (ls (run 0 [(60000, Start), (150000, Stop)] (installed ''2024-01-01'' 1000))))
      = [JNum (round_minutes (150000 - 60000))]"
    by blast
  moreover from c z d have "map rec_duration
      (getRecords (ls (run 0 [(60000, Start), (149000, Refresh), (150000, Stop)]
        (installed ''2024-01-01'' 1000))))
      = [JNum (round_minutes (149000 - 60000))]"
    by blast
  moreover from c s have "\<forall>r\<in>set (getRecords (ls (run 0 ?es (installed ''2024-01-01'' 1000)))).
      \<exists>n. rec_duration r = JNum n \<and> 0 \<le> n"
    by blast
  ultimately show ?thesis using s by (simp add: round_minutes_def list_all_iff)
qed

text \<open>
  C4, as the claim states it, fails: on the popup just opened, where no timer was started,
  \<^verbatim>\<open>endTimer\<close> returns normally and reports no \<open>InvalidState\<close>; it leaves everything as
  it was.
\<close>

theorem C4_counterexample:
  "this_startTime (tm (installed ''2024-01-01'' 1000)) = None
   \<and> TimerManager_endTimer 0 5000 (installed ''2024-01-01'' 1000)
       = Inr (installed ''2024-01-01'' 1000)
   \<and> TimerManager_endTimer 0 5000 (installed ''2024-01-01'' 1000) \<noteq> Inl InvalidState"
  by (simp add: installed_eq TimerManager_endTimer_def to_number_def)

text \<open>
  C4, amended. Stopping when no timer has been started (\<^verbatim>\<open>startTime\<close> is \<^verbatim>\<open>null\<close>) is
  a silent no-op: \<^verbatim>\<open>endTimer\<close> returns normally without reporting an error, no record
  is committed and nothing else changes either.
\<close>

theorem C4_stop_without_start_is_silent:
  assumes "this_startTime (tm w) = None"
  shows "TimerManager_endTimer tz now w = Inr w"
  using assms by (simp add: TimerManager_endTimer_def to_number_def)

theorem C4_witness:
  "this_startTime (tm (installed ''2024-01-02'' 2000)) = None
   \<and> TimerManager_endTimer 480 7000 (installed ''2024-01-02'' 2000)
       = Inr (installed ''2024-01-02'' 2000)
   \<and> getRecords (ls (installed ''2024-01-02'' 2000)) = []"
proof -
  have n: "this_startTime (tm (installed ''2024-01-02'' 2000)) = None"
    by (simp add: installed_eq)
  have "getRecords (ls (installed ''2024-01-02'' 2000)) = []"
    by (simp add: installed_eq init_def empty_storage_def saveSettings_def saveRecords_def
        getRecords_def Let_def)
  with C4_stop_without_start_is_silent [OF n, of 480 7000] n show ?thesis by simp
qed

subsection \<open>Resuming\<close>




end
